theory Spec2Isabelle
  imports Main
begin

section \<open>Data model of the consensus coordinator\<close>

text \<open>
  The theory embeds the class \<open>Consensus\<close> (framework, node/consensus/consensus.ts) and the
  class \<open>ConsensusStateStore\<close> (lisk-chain, state_store/consensus_state_store.ts).
  Asynchronous methods become state-passing functions: a method takes the state of the
  coordinator and returns its result together with the new state. A thrown error is a
  value \<open>Inl e\<close>. The private methods of the source carry a leading underscore
  (\<open>_execute\<close>); here they carry the prefix \<open>p_\<close> (\<open>p_execute\<close>).
  The embedding is sequential: an operation runs to its end before the next one starts,
  so a worker never finds the mutex taken by another worker. The one holder that stays is
  \<open>stop\<close>, which acquires the mutex and never releases it; the state records that
  in \<open>mutexLocked\<close>, and a call of \<open>runExclusive\<close> on a locked mutex never
  returns.
\<close>

type_synonym bytes = "nat list"
type_synonym peerId = string

record BlockHeader =
  version :: nat
  height :: nat
  id_h :: bytes
  previousBlockID :: bytes
  generatorAddress :: bytes
  timestamp :: nat
  maxHeightPrevoted :: nat

record Block =
  header :: BlockHeader
  payload :: "bytes list"

text \<open>The error classes the coordinator distinguishes with \<open>instanceof\<close>; each carries its message.\<close>

datatype error =
    ApplyPenaltyError string
  | ApplyPenaltyAndRestartError string
  | RestartError string
  | AbortError string
  | Error string

fun message :: "error \<Rightarrow> string" where
  "message (ApplyPenaltyError m) = m"
| "message (ApplyPenaltyAndRestartError m) = m"
| "message (RestartError m) = m"
| "message (AbortError m) = m"
| "message (Error m) = m"

datatype ForkStatus =
    IDENTICAL_BLOCK
  | VALID_BLOCK
  | DOUBLE_FORGING
  | TIE_BREAK
  | DIFFERENT_CHAIN
  | DISCARD

definition BLOCK_VERSION :: nat where
  "BLOCK_VERSION = 2"

definition forkStatusList :: "ForkStatus list" where
  "forkStatusList =
     [IDENTICAL_BLOCK, VALID_BLOCK, DOUBLE_FORGING, TIE_BREAK, DIFFERENT_CHAIN, DISCARD]"

text \<open>What \<open>this.events.emit\<close> publishes, in the order of emission.\<close>

datatype event =
    CONSENSUS_EVENT_BLOCK_BROADCAST Block
  | CONSENSUS_EVENT_BLOCK_DELETE Block
  | CONSENSUS_EVENT_BLOCK_NEW Block
  | CONSENSUS_EVENT_FORK_DETECTED Block

text \<open>
  The calls on \<open>this._network\<close>: \<open>send\<close> with the event postBlock,
  \<open>applyPenaltyOnPeer\<close> (peer, penalty) and \<open>applyNodeInfo\<close>
  (height, lastBlockID, maxHeightPrevoted, blockVersion).
\<close>

datatype netcall =
    NETWORK_EVENT_POST_BLOCK Block
  | ApplyPenaltyOnPeer peerId nat
  | ApplyNodeInfo nat bytes nat nat

datatype LogLevel = Debug | Info | Warn | ErrorLevel

type_synonym logentry = "LogLevel \<times> string \<times> error option"

record ExecuteOptions =
  skipBroadcast :: "bool option"
  removeFromTempTable :: "bool option"

record DeleteOptions =
  saveTempBlock :: "bool option"

text \<open>
  The state of the coordinator. \<open>lastBlock\<close>, \<open>olderBlocks\<close>, \<open>finalizedHeight\<close> and
  \<open>tempBlocks\<close> are the chain (its tip, the blocks below the tip with the most recent one
  first, the finalized height and the table of temporarily removed blocks); \<open>p_stop\<close> is
  the field \<open>_stop\<close>; \<open>mutexLocked\<close> says that \<open>_mutex\<close> is held between two
  operations; \<open>isActive\<close> is the flag of the synchronizer; \<open>events\<close>,
  \<open>network\<close> and \<open>logs\<close> record the emitted events, the calls on the network and the
  calls on the logger. \<open>syncRuns\<close> counts the runs of the synchronizer, so that a run
  may differ from the one before although the chain is the same. No method of the
  coordinator writes \<open>isActive\<close>: the synchronizer sets it while it runs, and a method
  finds it as it was between two operations.
\<close>

record Consensus =
  lastBlock :: Block
  olderBlocks :: "Block list"
  finalizedHeight :: nat
  tempBlocks :: "Block list"
  p_stop :: bool
  mutexLocked :: bool
  isActive :: bool
  syncRuns :: nat
  events :: "event list"
  network :: "netcall list"
  logs :: "logentry list"

text \<open>
  Modelled from the spec: the Synchronizer and its two mechanisms are not under src/. By
  section 3 of the specification the synchronizer "mutates the chain only via a provided
  BlockExecutor capability", so a run is a tree of calls on the BlockExecutor built in
  \<open>_createBlockExecutor\<close>: it deletes the last block, executes a validated block or
  verifies a block and continues with the outcome (\<open>None\<close> when the call returned,
  \<open>Some e\<close> when it threw \<open>e\<close>), it reads the state, and it ends by returning or
  by throwing.
\<close>

datatype sync_prog =
    SyncReturn
  | SyncThrow error
  | CallDeleteLastBlock DeleteOptions "error option \<Rightarrow> sync_prog"
  | CallExecuteValidated Block ExecuteOptions "error option \<Rightarrow> sync_prog"
  | CallVerify Block "error option \<Rightarrow> sync_prog"
  | ReadState "Consensus \<Rightarrow> sync_prog"

datatype post_data = NotBuffer | BufferData bytes

text \<open>
  The collaborators of the coordinator that are not under src/ are parameters: the fork
  choice rule, the state machine, the BFT API, the verification and the input/output
  failures of the chain, the synchronizer and the two decoders. Each may depend on the
  state at the moment of the call. \<open>getBFTHeights\<close> gives \<open>maxHeightPrecommitted\<close>.
\<close>

record Env =
  forkChoice :: "BlockHeader \<Rightarrow> BlockHeader \<Rightarrow> ForkStatus"
  stateMachine_verifyBlock :: "Consensus \<Rightarrow> Block \<Rightarrow> error option"
  stateMachine_executeBlock :: "Consensus \<Rightarrow> Block \<Rightarrow> error option"
  getBFTHeights :: "Consensus \<Rightarrow> Block \<Rightarrow> error + nat"
  chain_verifyBlock :: "Consensus \<Rightarrow> Block \<Rightarrow> error option"
  saveBlock_failure :: "Consensus \<Rightarrow> Block \<Rightarrow> error option"
  removeBlock_failure :: "Consensus \<Rightarrow> Block \<Rightarrow> error option"
  synchronizer_run :: "Consensus \<Rightarrow> Block \<Rightarrow> peerId \<Rightarrow> sync_prog"
  codec_decode :: "bytes \<Rightarrow> error + bytes"
  Block_fromBytes :: "bytes \<Rightarrow> error + Block"

section \<open>The chain\<close>

definition log :: "LogLevel \<Rightarrow> string \<Rightarrow> error option \<Rightarrow> Consensus \<Rightarrow> Consensus" where
  "log lvl msg err s = s\<lparr>logs := logs s @ [(lvl, msg, err)]\<rparr>"

definition emit :: "event \<Rightarrow> Consensus \<Rightarrow> Consensus" where
  "emit ev s = s\<lparr>events := events s @ [ev]\<rparr>"

definition applyPenaltyOnPeer :: "peerId \<Rightarrow> nat \<Rightarrow> Consensus \<Rightarrow> Consensus" where
  "applyPenaltyOnPeer peer penalty s = s\<lparr>network := network s @ [ApplyPenaltyOnPeer peer penalty]\<rparr>"

text \<open>
  Modelled from the spec: \<open>Chain.saveBlock\<close> is not under src/. Step 4 of
  \<open>executeValidated\<close> in section 4.3: "Atomically: persist block, payload, state diff,
  new finalizedHeight, and append to header index". The block becomes the tip and the
  finalized height becomes the one passed in; when the batch fails nothing is written.
\<close>

definition chain_saveBlock ::
  "Env \<Rightarrow> Block \<Rightarrow> nat \<Rightarrow> bool \<Rightarrow> Consensus \<Rightarrow> (error + unit) \<times> Consensus" where
  "chain_saveBlock env block newFinalizedHeight removeFromTemp s =
     (case saveBlock_failure env s block of
        Some e \<Rightarrow> (Inl e, s)
      | None \<Rightarrow>
          (Inr (),
           s\<lparr>lastBlock := block,
             olderBlocks := lastBlock s # olderBlocks s,
             finalizedHeight := newFinalizedHeight,
             tempBlocks := (if removeFromTemp then removeAll block (tempBlocks s)
                            else tempBlocks s)\<rparr>))"

text \<open>
  Modelled from the spec: \<open>Chain.removeBlock\<close> is not under src/. Section 4.3: the
  deleted block is written "to a temp table if requested"; section 5: "The database batch
  is the unit of atomicity for save/delete". Every caller passes the tip: the tip is
  removed and the block below it becomes the tip; the first block of the chain has none
  below it and cannot be removed. The finalized height is not touched.
\<close>

definition chain_removeBlock ::
  "Env \<Rightarrow> Block \<Rightarrow> bool \<Rightarrow> Consensus \<Rightarrow> (error + unit) \<times> Consensus" where
  "chain_removeBlock env block saveTemp s =
     (case removeBlock_failure env s block of
        Some e \<Rightarrow> (Inl e, s)
      | None \<Rightarrow>
          (case olderBlocks s of
             [] \<Rightarrow> (Inl (Error ''PreviousBlock is null''), s)
           | secondLastBlock # rest \<Rightarrow>
               (Inr (),
                s\<lparr>lastBlock := secondLastBlock,
                  olderBlocks := rest,
                  tempBlocks := (if saveTemp then block # tempBlocks s else tempBlocks s)\<rparr>)))"

definition chainBlocks :: "Consensus \<Rightarrow> Block list" where
  "chainBlocks s = lastBlock s # olderBlocks s"

section \<open>Executing, verifying and deleting a block\<close>

definition defaultExecuteOptions :: ExecuteOptions where
  "defaultExecuteOptions = \<lparr>skipBroadcast = None, removeFromTempTable = None\<rparr>"

text \<open>
  \<open>_executeValidated\<close>: the state machine verifies the block; unless \<open>skipBroadcast\<close>
  is set the block is sent and BLOCK_BROADCAST is emitted (\<open>broadcast\<close>, the
  \<open>if (!options.skipBroadcast)\<close> of the method); the state machine executes
  the block; the finalized height is raised to \<open>maxHeightPrecommitted\<close> when that is
  greater; the chain saves the block; BLOCK_NEW is emitted.
\<close>

definition broadcast :: "Block \<Rightarrow> ExecuteOptions \<Rightarrow> Consensus \<Rightarrow> Consensus" where
  "broadcast block options s =
     (if skipBroadcast options \<noteq> Some True
      then emit (CONSENSUS_EVENT_BLOCK_BROADCAST block)
             (s\<lparr>network := network s @ [NETWORK_EVENT_POST_BLOCK block]\<rparr>)
      else s)"

definition p_executeValidated ::
  "Env \<Rightarrow> Block \<Rightarrow> ExecuteOptions \<Rightarrow> Consensus \<Rightarrow> (error + Block) \<times> Consensus" where
  "p_executeValidated env block options s =
     (case stateMachine_verifyBlock env s block of
        Some e \<Rightarrow> (Inl e, s)
      | None \<Rightarrow>
          (let s1 = broadcast block options s
           in case stateMachine_executeBlock env s1 block of
                Some e \<Rightarrow> (Inl e, s1)
              | None \<Rightarrow>
                  (case getBFTHeights env s1 block of
                     Inl e \<Rightarrow> (Inl e, s1)
                   | Inr maxHeightPrecommitted \<Rightarrow>
                       (let newFinalizedHeight =
                              (if maxHeightPrecommitted > finalizedHeight s1
                               then maxHeightPrecommitted else finalizedHeight s1)
                        in case chain_saveBlock env block newFinalizedHeight
                                  (case removeFromTempTable options of
                                     None \<Rightarrow> False | Some b \<Rightarrow> b) s1 of
                             (Inl e, s2) \<Rightarrow> (Inl e, s2)
                           | (Inr u, s2) \<Rightarrow>
                               (Inr block, emit (CONSENSUS_EVENT_BLOCK_NEW block) s2)))))"

definition p_verify :: "Env \<Rightarrow> Block \<Rightarrow> Consensus \<Rightarrow> error + unit" where
  "p_verify env block s =
     (if version (header block) \<noteq> BLOCK_VERSION
      then Inl (ApplyPenaltyError ''Block version must be 2'')
      else case chain_verifyBlock env s block of
             Some e \<Rightarrow> Inl (ApplyPenaltyError (message e))
           | None \<Rightarrow> Inr ())"

definition p_deleteBlock ::
  "Env \<Rightarrow> Block \<Rightarrow> bool \<Rightarrow> Consensus \<Rightarrow> (error + unit) \<times> Consensus" where
  "p_deleteBlock env block saveTemp s =
     (if height (header block) \<le> finalizedHeight s
      then (Inl (Error ''Can not delete block below or same as finalized height''), s)
      else case chain_removeBlock env block saveTemp s of
             (Inl e, s1) \<Rightarrow> (Inl e, s1)
           | (Inr u, s1) \<Rightarrow> (Inr (), emit (CONSENSUS_EVENT_BLOCK_DELETE block) s1))"

definition p_deleteLastBlock ::
  "Env \<Rightarrow> DeleteOptions \<Rightarrow> Consensus \<Rightarrow> (error + unit) \<times> Consensus" where
  "p_deleteLastBlock env opts s =
     (if p_stop s then (Inr (), s)
      else (let s1 = log Debug ''Deleting last block'' None s
            in p_deleteBlock env (lastBlock s1)
                 (case saveTempBlock opts of None \<Rightarrow> False | Some b \<Rightarrow> b) s1))"

section \<open>Synchronization\<close>

fun thrown :: "(error + 'a) \<Rightarrow> error option" where
  "thrown (Inl e) = Some e"
| "thrown (Inr v) = None"

text \<open>
  The run of the synchronizer against the BlockExecutor of \<open>_createBlockExecutor\<close>:
  \<open>deleteLastBlock\<close> is \<open>_deleteLastBlock\<close>, \<open>executeValidated\<close> is
  \<open>_executeValidated\<close>, \<open>verify\<close> is \<open>_verify\<close>. The result is the error the
  run threw, if any.
\<close>

primrec runSync :: "Env \<Rightarrow> sync_prog \<Rightarrow> Consensus \<Rightarrow> error option \<times> Consensus" where
  "runSync env SyncReturn s = (None, s)"
| "runSync env (SyncThrow e) s = (Some e, s)"
| "runSync env (CallDeleteLastBlock opts k) s =
     (case p_deleteLastBlock env opts s of (r, s1) \<Rightarrow> runSync env (k (thrown r)) s1)"
| "runSync env (CallExecuteValidated block options k) s =
     (case p_executeValidated env block options s of (r, s1) \<Rightarrow> runSync env (k (thrown r)) s1)"
| "runSync env (CallVerify block k) s = runSync env (k (thrown (p_verify env block s))) s"
| "runSync env (ReadState k) s = runSync env (k s) s"

definition synchronizer_run_on ::
  "Env \<Rightarrow> Block \<Rightarrow> peerId \<Rightarrow> Consensus \<Rightarrow> error option \<times> Consensus" where
  "synchronizer_run_on env block peerID s =
     runSync env (synchronizer_run env s block peerID) (s\<lparr>syncRuns := Suc (syncRuns s)\<rparr>)"

text \<open>
  \<open>_sync\<close> calls itself after \<open>ApplyPenaltyAndRestartError\<close> and after
  \<open>RestartError\<close>, without a bound; a run that restarts for ever has the value
  \<open>None\<close>.
\<close>

partial_function (option) p_sync ::
  "Env \<Rightarrow> Block \<Rightarrow> peerId \<Rightarrow> Consensus \<Rightarrow> ((error + unit) \<times> Consensus) option" where
  "p_sync env block peerID s =
     (if p_stop s then Some (Inr (), s)
      else case synchronizer_run_on env block peerID s of
             (None, s1) \<Rightarrow> Some (Inr (), s1)
           | (Some err, s1) \<Rightarrow>
               (case err of
                  ApplyPenaltyAndRestartError m \<Rightarrow>
                    p_sync env block peerID (applyPenaltyOnPeer peerID 100 s1)
                | RestartError m \<Rightarrow> p_sync env block peerID s1
                | AbortError reason \<Rightarrow>
                    Some (Inr (), log Info ''Aborting synchronization mechanism'' (Some err) s1)
                | ApplyPenaltyError m \<Rightarrow> Some (Inl err, s1)
                | Error m \<Rightarrow> Some (Inl err, s1)))"

section \<open>Processing a block\<close>

definition applyNodeInfo :: "Block \<Rightarrow> Consensus \<Rightarrow> Consensus" where
  "applyNodeInfo block s =
     s\<lparr>network := network s @
         [ApplyNodeInfo (height (header block)) (id_h (header block)) 0
            (version (header block))]\<rparr>"

definition restoreOptions :: ExecuteOptions where
  "restoreOptions = \<lparr>skipBroadcast = Some True, removeFromTempTable = None\<rparr>"

text \<open>
  The tie-break branch of \<open>_execute\<close>, from the state \<open>s1\<close> after FORK_DETECTED was
  emitted: verify the block, delete the tip, execute the block; when that throws, log the
  error and execute the previous tip again with \<open>skipBroadcast\<close>.
\<close>

definition tieBreak ::
  "Env \<Rightarrow> Block \<Rightarrow> Block \<Rightarrow> Consensus \<Rightarrow> (error + unit) \<times> Consensus" where
  "tieBreak env block lastBlock0 s1 =
     (case p_verify env block s1 of
        Inl e \<Rightarrow> (Inl e, s1)
      | Inr u \<Rightarrow>
          (let previousLastBlock = lastBlock0
           in case p_deleteBlock env lastBlock0 False s1 of
                (Inl e, s2) \<Rightarrow> (Inl e, s2)
              | (Inr u, s2) \<Rightarrow>
                  (case p_executeValidated env block defaultExecuteOptions s2 of
                     (Inr b, s3) \<Rightarrow> (Inr (), s3)
                   | (Inl err, s3) \<Rightarrow>
                       (let s4 = log ErrorLevel
                                   ''Failed to apply newly received block. restoring previous block.''
                                   (Some err) s3
                        in case p_executeValidated env previousLastBlock restoreOptions s4 of
                             (Inl e, s5) \<Rightarrow> (Inl e, s5)
                           | (Inr b, s5) \<Rightarrow> (Inr (), s5)))))"

definition p_execute ::
  "Env \<Rightarrow> Block \<Rightarrow> peerId \<Rightarrow> Consensus \<Rightarrow> ((error + unit) \<times> Consensus) option" where
  "p_execute env block peerID s =
     (if p_stop s then Some (Inr (), s)
      else
        (let s0 = log Debug ''Starting to process block'' None s;
             lastBlock0 = lastBlock s0;
             forkStatus = forkChoice env (header block) (header lastBlock0)
         in if forkStatus \<notin> set forkStatusList
            then Some (Inl (Error ''Unknown fork status''),
                       log Debug ''Unknown fork status'' None s0)
            else if forkStatus = DISCARD
            then Some (Inr (), emit (CONSENSUS_EVENT_FORK_DETECTED block)
                                 (log Debug ''Discarding block'' None s0))
            else if forkStatus = IDENTICAL_BLOCK
            then Some (Inr (), log Debug ''Block already processed'' None s0)
            else if forkStatus = DOUBLE_FORGING
            then Some (Inr (), emit (CONSENSUS_EVENT_FORK_DETECTED block)
                                 (log Warn ''Discarding block due to double forging'' None s0))
            else if forkStatus = DIFFERENT_CHAIN
            then p_sync env block peerID
                   (emit (CONSENSUS_EVENT_FORK_DETECTED block)
                      (log Debug ''Detected different chain to sync'' None s0))
            else if forkStatus = TIE_BREAK
            then Some (tieBreak env block lastBlock0
                         (emit (CONSENSUS_EVENT_FORK_DETECTED block)
                            (log Info ''Received tie breaking block'' None s0)))
            else
              (let s1 = log Debug ''Processing valid block'' None s0
               in case p_verify env block s1 of
                    Inl e \<Rightarrow> Some (Inl e, s1)
                  | Inr u \<Rightarrow>
                      (case p_executeValidated env block defaultExecuteOptions s1 of
                         (Inl e, s2) \<Rightarrow> Some (Inl e, s2)
                       | (Inr b, s2) \<Rightarrow> Some (Inr (), applyNodeInfo block s2)))))"

definition syncing :: "Consensus \<Rightarrow> bool" where
  "syncing s = isActive s"

fun isApplyPenaltyError :: "error \<Rightarrow> bool" where
  "isApplyPenaltyError (ApplyPenaltyError m) = True"
| "isApplyPenaltyError e = False"

definition onBlockReceive ::
  "Env \<Rightarrow> post_data \<Rightarrow> peerId \<Rightarrow> Consensus \<Rightarrow> ((error + unit) \<times> Consensus) option" where
  "onBlockReceive env data peer s =
     (if syncing s
      then Some (Inr (), log Debug ''Client is syncing. Can't process new block at the moment.'' None s)
      else case data of
             NotBuffer \<Rightarrow>
               Some (Inr (), applyPenaltyOnPeer peer 100
                               (log Warn ''Received invalid post block data'' None s))
           | BufferData bs \<Rightarrow>
               (case codec_decode env bs of
                  Inl e \<Rightarrow>
                    Some (Inl e, applyPenaltyOnPeer peer 100
                                   (log Warn ''Received post block broadcast request in unexpected format''
                                      (Some e) s))
                | Inr blockBytes \<Rightarrow>
                    (case Block_fromBytes env blockBytes of
                       Inl e \<Rightarrow>
                         Some (Inl e, applyPenaltyOnPeer peer 100
                                        (log Warn ''Received post block broadcast request in not decodable format''
                                           (Some e) s))
                     | Inr block \<Rightarrow>
                         (case p_execute env block peer s of
                            None \<Rightarrow> None
                          | Some (Inr u, s1) \<Rightarrow> Some (Inr (), s1)
                          | Some (Inl e, s1) \<Rightarrow>
                              Some (Inl e,
                                    if isApplyPenaltyError e
                                    then applyPenaltyOnPeer peer 100
                                           (log Warn ''Received post block broadcast request with invalid block''
                                              (Some e) s1)
                                    else s1)))))"

text \<open>
  \<open>mutex.runExclusive(worker)\<close> waits for the mutex, runs the worker and releases
  the mutex. On a locked mutex the call waits for ever and has the value \<open>None\<close>. On
  a free mutex the worker runs; it is at its end, and the mutex free again, before the
  next operation starts, so the lock it holds meanwhile is not recorded.

  \<open>_execute\<close> and \<open>_deleteLastBlock\<close> call \<open>runExclusive\<close> only after they
  found \<open>_stop\<close> unset. The mutex is locked between two operations only by
  \<open>stop\<close>, which sets \<open>_stop\<close> first, so these two find it free: their definitions
  are the test of the flag followed by the worker. That also holds of the
  \<open>deleteLastBlock\<close> which the synchronizer calls from inside the worker of
  \<open>_execute\<close>: the embedding runs its worker, so it has every run of the source and
  more, and what is proved of all its runs is an invariant.
\<close>

definition runExclusive ::
  "(Consensus \<Rightarrow> 'a \<times> Consensus) \<Rightarrow> Consensus \<Rightarrow> ('a \<times> Consensus) option" where
  "runExclusive worker s = (if mutexLocked s then None else Some (worker s))"

text \<open>
  \<open>execute\<close>, called by the generator with its own block: it does not read
  \<open>_stop\<close> and goes straight to the mutex.
\<close>

definition execute ::
  "Env \<Rightarrow> Block \<Rightarrow> Consensus \<Rightarrow> ((error + unit) \<times> Consensus) option" where
  "execute env block s =
     runExclusive
       (\<lambda>s0. case p_executeValidated env block defaultExecuteOptions s0 of
                (Inl e, s1) \<Rightarrow> (Inl e, s1)
              | (Inr b, s1) \<Rightarrow> (Inr (), s1)) s"

text \<open>
  \<open>stop\<close> sets the flag and acquires the mutex; the release function that
  \<open>acquire\<close> gives is dropped, so the mutex stays locked. On a mutex that is locked
  already \<open>stop\<close> never returns; the flag was set by the call that locked it.
\<close>

definition stop :: "Consensus \<Rightarrow> Consensus option" where
  "stop s =
     (if mutexLocked s then None
      else Some (s\<lparr>p_stop := True, mutexLocked := True\<rparr>))"

text \<open>
  The operations on the coordinator: its public methods and the two writing calls of the
  BlockExecutor. A sequence of operations has no final state when one of them does not
  return.
\<close>

datatype operation =
    OpExecute Block
  | OpOnBlockReceive post_data peerId
  | OpStop
  | OpDeleteLastBlock DeleteOptions
  | OpExecuteValidated Block ExecuteOptions

fun apply_operation :: "Env \<Rightarrow> operation \<Rightarrow> Consensus \<Rightarrow> Consensus option" where
  "apply_operation env (OpExecute block) s = map_option snd (execute env block s)"
| "apply_operation env (OpOnBlockReceive d peer) s = map_option snd (onBlockReceive env d peer s)"
| "apply_operation env OpStop s = stop s"
| "apply_operation env (OpDeleteLastBlock opts) s = Some (snd (p_deleteLastBlock env opts s))"
| "apply_operation env (OpExecuteValidated block options) s =
     Some (snd (p_executeValidated env block options s))"

fun run_operations :: "Env \<Rightarrow> operation list \<Rightarrow> Consensus \<Rightarrow> Consensus option" where
  "run_operations env [] s = Some s"
| "run_operations env (op # ops) s =
     (case apply_operation env op s of
        None \<Rightarrow> None
      | Some s1 \<Rightarrow> run_operations env ops s1)"

text \<open>
  From \<open>s\<close> to \<open>s'\<close> the finalized height did not decrease and every block of the chain
  that was at or below the finalized height is still in the chain.
\<close>

definition kept :: "Consensus \<Rightarrow> Consensus \<Rightarrow> bool" where
  "kept s s' \<longleftrightarrow>
     finalizedHeight s \<le> finalizedHeight s' \<and>
     (\<forall>b \<in> set (chainBlocks s).
        height (header b) \<le> finalizedHeight s \<longrightarrow> b \<in> set (chainBlocks s'))"

section \<open>The fork choice rule\<close>

text \<open>
  Modelled from the spec: \<open>forkChoice\<close> (fork_choice/fork_choice_rule.ts) and \<open>Slots\<close>
  are not under src/. Section 4.1 lists six statuses, the first matching rule wins.
  \<open>_execute\<close> builds the slots from the timestamp of the genesis block and the block
  time; the time of the call and the time the tip was received come with them.
\<close>

record Slots =
  genesisBlockTimestamp :: nat
  interval :: nat
  now :: nat
  receivedAt :: "BlockHeader \<Rightarrow> nat"

definition slot_of :: "Slots \<Rightarrow> nat \<Rightarrow> nat" where
  "slot_of slots t = (t - genesisBlockTimestamp slots) div interval slots"

definition slot_end :: "Slots \<Rightarrow> nat \<Rightarrow> nat" where
  "slot_end slots t = genesisBlockTimestamp slots + (slot_of slots t + 1) * interval slots"

definition forkChoice_spec :: "Slots \<Rightarrow> BlockHeader \<Rightarrow> BlockHeader \<Rightarrow> ForkStatus" where
  "forkChoice_spec slots H T =
     (if id_h H = id_h T then IDENTICAL_BLOCK
      else if height H = height T \<and> previousBlockID H = previousBlockID T
              \<and> generatorAddress H = generatorAddress T
      then DOUBLE_FORGING
      else if height H = height T
              \<and> slot_of slots (timestamp H) = slot_of slots (timestamp T)
              \<and> slot_of slots (timestamp H) \<le> slot_of slots (now slots)
              \<and> receivedAt slots T > slot_end slots (timestamp T)
      then TIE_BREAK
      else if maxHeightPrevoted H > maxHeightPrevoted T
              \<or> (maxHeightPrevoted H = maxHeightPrevoted T \<and> height H > height T)
      then DIFFERENT_CHAIN
      else if height H = height T + 1 \<and> previousBlockID H = id_h T
      then VALID_BLOCK
      else DISCARD)"

section \<open>The consensus state store\<close>

text \<open>
  A \<open>Buffer\<close> of the source is an object: \<open>===\<close> and \<open>!==\<close> between two buffers
  compare the objects, not their bytes, and a \<open>Set<Buffer>\<close> holds objects. A buffer is
  its reference and its content. A \<open>BufferMap\<close> is keyed by the content.
\<close>

record buffer =
  ref :: nat
  content :: bytes

record StateDiff =
  updated :: "(bytes \<times> bytes) list"
  created :: "bytes list"
  deleted :: "bytes list"

record ConsensusStateStore =
  data :: "bytes \<rightharpoonup> bytes"
  originalData :: "bytes \<rightharpoonup> bytes"
  updatedKeys :: "buffer list"
  originalUpdatedKeys :: "buffer list"
  initialValue :: "bytes \<rightharpoonup> bytes"

text \<open>
  What the store is given rather than defines: \<open>getConsensusState\<close> of the data
  access, the constant \<open>CONSENSUS_STATE_FINALIZED_HEIGHT_KEY\<close> and the prefix
  \<open>DB_KEY_CONSENSUS_STATE\<close>.
\<close>

record StoreEnv =
  getConsensusState :: "bytes \<Rightarrow> bytes option"
  CONSENSUS_STATE_FINALIZED_HEIGHT_KEY :: buffer
  DB_KEY_CONSENSUS_STATE :: bytes

text \<open>
  Modelled from the spec: \<open>concatKeys\<close> (utils) is not under src/. Section 6, persisted
  layout: the key of the store follows the prefix, as in \<open>CONSENSUS:finalizedHeight\<close>.
\<close>

definition concatKeys :: "bytes \<Rightarrow> bytes \<Rightarrow> bytes" where
  "concatKeys prefix key = prefix @ key"

definition constructor :: ConsensusStateStore where
  "constructor =
     \<lparr>data = Map.empty, originalData = Map.empty, updatedKeys = [],
      originalUpdatedKeys = [], initialValue = Map.empty\<rparr>"

definition createSnapshot :: "ConsensusStateStore \<Rightarrow> ConsensusStateStore" where
  "createSnapshot st = st\<lparr>originalData := data st, originalUpdatedKeys := updatedKeys st\<rparr>"

definition restoreSnapshot :: "ConsensusStateStore \<Rightarrow> ConsensusStateStore" where
  "restoreSnapshot st = st\<lparr>data := originalData st, updatedKeys := originalUpdatedKeys st\<rparr>"

definition get ::
  "StoreEnv \<Rightarrow> buffer \<Rightarrow> ConsensusStateStore \<Rightarrow> bytes option \<times> ConsensusStateStore" where
  "get env key st =
     (case data st (content key) of
        Some v \<Rightarrow> (Some v, st)
      | None \<Rightarrow>
          (case getConsensusState env (content key) of
             None \<Rightarrow> (None, st)
           | Some dbValue \<Rightarrow>
               (let st1 = (if ref key \<noteq> ref (CONSENSUS_STATE_FINALIZED_HEIGHT_KEY env)
                           then st\<lparr>initialValue := (initialValue st)(content key \<mapsto> dbValue)\<rparr>
                           else st);
                    st2 = st1\<lparr>data := (data st1)(content key \<mapsto> dbValue)\<rparr>
                in (data st2 (content key), st2))))"

text \<open>\<open>Set.add\<close>: an object that is in the set already is not added again.\<close>

definition set_add :: "buffer \<Rightarrow> buffer list \<Rightarrow> buffer list" where
  "set_add key keys = (if ref key \<in> ref ` set keys then keys else keys @ [key])"

definition set_value :: "buffer \<Rightarrow> bytes \<Rightarrow> ConsensusStateStore \<Rightarrow> ConsensusStateStore" where
  "set_value key v st =
     st\<lparr>data := (data st)(content key \<mapsto> v), updatedKeys := set_add key (updatedKeys st)\<rparr>"

text \<open>
  The loop of \<open>finalize\<close> over the updated keys, with the diff and the batch built so
  far. \<open>_data.get(key) as Buffer\<close> has a value for every key \<open>set\<close> added; for a key
  without one, \<open>equals\<close> would throw a TypeError.
\<close>

fun finalizeLoop ::
  "StoreEnv \<Rightarrow> ConsensusStateStore \<Rightarrow> buffer list \<Rightarrow> StateDiff \<Rightarrow> (bytes \<times> bytes option) list
     \<Rightarrow> error + StateDiff \<times> (bytes \<times> bytes option) list" where
  "finalizeLoop env st [] stateDiff batch = Inr (stateDiff, batch)"
| "finalizeLoop env st (key # keys) stateDiff batch =
     (let dbKey = concatKeys (DB_KEY_CONSENSUS_STATE env) (content key);
          updatedValue = data st (content key);
          batch1 = batch @ [(dbKey, updatedValue)]
      in if ref key = ref (CONSENSUS_STATE_FINALIZED_HEIGHT_KEY env)
         then finalizeLoop env st keys stateDiff batch1
         else (case initialValue st (content key) of
                 Some initial \<Rightarrow>
                   (case updatedValue of
                      None \<Rightarrow> Inl (Error ''TypeError'')
                    | Some v \<Rightarrow>
                        if initial \<noteq> v
                        then finalizeLoop env st keys
                               (stateDiff\<lparr>updated := updated stateDiff @ [(dbKey, initial)]\<rparr>) batch1
                        else finalizeLoop env st keys stateDiff batch1)
               | None \<Rightarrow>
                   finalizeLoop env st keys
                     (stateDiff\<lparr>created := created stateDiff @ [dbKey]\<rparr>) batch1))"

definition finalize ::
  "StoreEnv \<Rightarrow> ConsensusStateStore \<Rightarrow> (bytes \<times> bytes option) list
     \<Rightarrow> error + StateDiff \<times> (bytes \<times> bytes option) list" where
  "finalize env st batch =
     (let stateDiff = \<lparr>updated = [], created = [], deleted = []\<rparr>
      in if length (updatedKeys st) = 0 then Inr (stateDiff, batch)
         else finalizeLoop env st (updatedKeys st) stateDiff batch)"

text \<open>A sequence of calls on a new store.\<close>

datatype store_call = CallGet buffer | CallSet buffer bytes | CallCreateSnapshot | CallRestoreSnapshot

fun store_step :: "StoreEnv \<Rightarrow> store_call \<Rightarrow> ConsensusStateStore \<Rightarrow> ConsensusStateStore" where
  "store_step env (CallGet key) st = snd (get env key st)"
| "store_step env (CallSet key v) st = set_value key v st"
| "store_step env CallCreateSnapshot st = createSnapshot st"
| "store_step env CallRestoreSnapshot st = restoreSnapshot st"

definition store_run :: "StoreEnv \<Rightarrow> store_call list \<Rightarrow> ConsensusStateStore" where
  "store_run env calls = foldl (\<lambda>st c. store_step env c st) constructor calls"

section \<open>Example chain\<close>

text \<open>
  A chain of two blocks with a third block to add, and collaborators that accept every
  block: the fork choice of section 4.1 with slots of ten seconds, and a BFT API that
  reports the height below the executed block as precommitted.
\<close>

definition example_header ::
  "nat \<Rightarrow> nat \<Rightarrow> nat \<Rightarrow> nat \<Rightarrow> nat \<Rightarrow> nat \<Rightarrow> nat \<Rightarrow> BlockHeader" where
  "example_header v h i prev gen t prevoted =
     \<lparr>version = v, height = h, id_h = [i], previousBlockID = [prev],
      generatorAddress = [gen], timestamp = t, maxHeightPrevoted = prevoted\<rparr>"

definition example_genesis :: Block where
  "example_genesis = \<lparr>header = example_header 2 0 100 0 7 0 0, payload = []\<rparr>"

definition example_block1 :: Block where
  "example_block1 = \<lparr>header = example_header 2 1 101 100 7 10 1, payload = []\<rparr>"

definition example_block2 :: Block where
  "example_block2 = \<lparr>header = example_header 2 2 102 101 8 20 0, payload = []\<rparr>"

text \<open>
  A block of the height and the slot of \<open>example_block1\<close> by another generator, and
  a block of version 1 at the height of the genesis block.
\<close>

definition example_tie :: Block where
  "example_tie = \<lparr>header = example_header 2 1 111 100 9 14 1, payload = []\<rparr>"

definition example_old :: Block where
  "example_old = \<lparr>header = example_header 1 0 150 0 9 5 0, payload = []\<rparr>"

definition example_state :: Consensus where
  "example_state =
     \<lparr>lastBlock = example_block1, olderBlocks = [example_genesis], finalizedHeight = 0,
      tempBlocks = [], p_stop = False, mutexLocked = False, isActive = False, syncRuns = 0,
      events = [], network = [], logs = []\<rparr>"

definition example_slots :: Slots where
  "example_slots =
     \<lparr>genesisBlockTimestamp = 0, interval = 10, now = 25, receivedAt = (\<lambda>h. timestamp h + 15)\<rparr>"

definition example_env :: Env where
  "example_env =
     \<lparr>forkChoice = forkChoice_spec example_slots,
      stateMachine_verifyBlock = (\<lambda>s b. None),
      stateMachine_executeBlock = (\<lambda>s b. None),
      getBFTHeights = (\<lambda>s b. Inr (height (header b) - 1)),
      chain_verifyBlock = (\<lambda>s b. None),
      saveBlock_failure = (\<lambda>s b. None),
      removeBlock_failure = (\<lambda>s b. None),
      synchronizer_run = (\<lambda>s b peer. SyncReturn),
      codec_decode = (\<lambda>bs. Inr bs),
      Block_fromBytes = (\<lambda>bs. if bs = [2] then Inr example_block2
                                 else if bs = [1] then Inr example_block1
                                 else if bs = [3] then Inr example_tie
                                 else if bs = [4] then Inr example_old
                                 else Inl (Error ''Invalid block''))\<rparr>"

text \<open>The example collaborators with a state machine that fails to execute one block.\<close>

definition example_env_rejecting :: "Block \<Rightarrow> Env" where
  "example_env_rejecting rejected =
     example_env\<lparr>stateMachine_executeBlock :=
       (\<lambda>s b. if b = rejected then Some (Error ''Invalid transaction'') else None)\<rparr>"

text \<open>
  The example collaborators with a synchronizer whose first run throws
  \<open>ApplyPenaltyAndRestartError\<close>, whose second run throws \<open>RestartError\<close> and whose
  later runs throw \<open>AbortError\<close>.
\<close>

definition example_env_restarting :: Env where
  "example_env_restarting =
     example_env\<lparr>synchronizer_run :=
       (\<lambda>s b peer. if syncRuns s = 0 then SyncThrow (ApplyPenaltyAndRestartError ''Invalid block'')
                   else if syncRuns s = 1 then SyncThrow (RestartError ''Timeout'')
                   else SyncThrow (AbortError ''No common block''))\<rparr>"

text \<open>The calls of \<open>applyNodeInfo\<close> among the calls on the network.\<close>

definition nodeInfoCalls :: "Consensus \<Rightarrow> netcall list" where
  "nodeInfoCalls s =
     filter (\<lambda>c. case c of ApplyNodeInfo h i p v \<Rightarrow> True | _ \<Rightarrow> False) (network s)"

text \<open>The example coordinator after it received and saved \<open>example_block2\<close>.\<close>

definition example_state_after_block2 :: Consensus where
  "example_state_after_block2 =
     example_state\<lparr>lastBlock := example_block2,
       olderBlocks := [example_block1, example_genesis],
       finalizedHeight := 1,
       events := [CONSENSUS_EVENT_BLOCK_BROADCAST example_block2,
                  CONSENSUS_EVENT_BLOCK_NEW example_block2],
       network := [NETWORK_EVENT_POST_BLOCK example_block2, ApplyNodeInfo 2 [102] 0 2],
       logs := [(Debug, ''Starting to process block'', None),
                (Debug, ''Processing valid block'', None)]\<rparr>"

text \<open>
  A store whose database holds the finalized height 5 under the key of the constant, and
  a second buffer with the bytes of the constant.
\<close>

definition example_store_env :: StoreEnv where
  "example_store_env =
     \<lparr>getConsensusState = (\<lambda>k. if k = [102, 72] then Some [5] else None),
      CONSENSUS_STATE_FINALIZED_HEIGHT_KEY = \<lparr>ref = 1, content = [102, 72]\<rparr>,
      DB_KEY_CONSENSUS_STATE = [99]\<rparr>"

definition example_key_copy :: buffer where
  "example_key_copy = \<lparr>ref = 2, content = [102, 72]\<rparr>"

text \<open>
  The keys of a list that have the bytes of the finalized-height constant are the
  constant itself; the keys a call passes; and what the store keeps from call to call
  when that holds of every key passed.
\<close>

definition only_constant :: "StoreEnv \<Rightarrow> buffer list \<Rightarrow> bool" where
  "only_constant env keys \<longleftrightarrow>
     (\<forall>k \<in> set keys. content k = content (CONSENSUS_STATE_FINALIZED_HEIGHT_KEY env)
        \<longrightarrow> ref k = ref (CONSENSUS_STATE_FINALIZED_HEIGHT_KEY env))"

fun call_keys :: "store_call \<Rightarrow> buffer list" where
  "call_keys (CallGet k) = [k]"
| "call_keys (CallSet k v) = [k]"
| "call_keys c = []"

definition store_inv :: "StoreEnv \<Rightarrow> ConsensusStateStore \<Rightarrow> bool" where
  "store_inv env st \<longleftrightarrow>
     only_constant env (updatedKeys st) \<and> only_constant env (originalUpdatedKeys st)
     \<and> initialValue st (content (CONSENSUS_STATE_FINALIZED_HEIGHT_KEY env)) = None"

text \<open>
  \<open>example_block2\<close> and \<open>example_block1\<close> with the version 1 in their headers.
\<close>

definition example_block2_v1 :: Block where
  "example_block2_v1 = example_block2\<lparr>header := (header example_block2)\<lparr>version := 1\<rparr>\<rparr>"

definition example_block1_v1 :: Block where
  "example_block1_v1 = example_block1\<lparr>header := (header example_block1)\<lparr>version := 1\<rparr>\<rparr>"

text \<open>The example coordinator after \<open>stop\<close>.\<close>

definition example_stopped :: Consensus where
  "example_stopped = example_state\<lparr>p_stop := True, mutexLocked := True\<rparr>"

text \<open>The unfolding rules that evaluate the methods on the examples.\<close>

lemmas example_defs =
  example_header_def example_genesis_def example_block1_def example_block2_def
  example_tie_def example_old_def example_state_def example_slots_def example_env_def

lemmas method_defs =
  p_executeValidated_def broadcast_def emit_def log_def chain_saveBlock_def chain_removeBlock_def
  p_deleteBlock_def p_deleteLastBlock_def p_verify_def defaultExecuteOptions_def
  restoreOptions_def runExclusive_def execute_def stop_def applyPenaltyOnPeer_def
  applyNodeInfo_def
  tieBreak_def p_execute_def onBlockReceive_def syncing_def forkChoice_spec_def
  slot_of_def slot_end_def forkStatusList_def BLOCK_VERSION_def chainBlocks_def

section \<open>What every operation keeps\<close>

text \<open>
  \<open>kept\<close> is reflexive and transitive, the calls on the logger, the event emitter and
  the network do not affect it, and every method of the coordinator keeps it.
\<close>

lemma kept_refl: "kept s s"
  by (simp add: kept_def)

lemma kept_trans: "kept a b \<Longrightarrow> kept b c \<Longrightarrow> kept a c"
  by (auto simp: kept_def)

lemma emit_fields [simp]:
  "lastBlock (emit ev s) = lastBlock s" "olderBlocks (emit ev s) = olderBlocks s"
  "finalizedHeight (emit ev s) = finalizedHeight s" "tempBlocks (emit ev s) = tempBlocks s"
  "p_stop (emit ev s) = p_stop s" "isActive (emit ev s) = isActive s"
  "syncRuns (emit ev s) = syncRuns s" "events (emit ev s) = events s @ [ev]"
  "network (emit ev s) = network s" "logs (emit ev s) = logs s"
  by (simp_all add: emit_def)

lemma log_fields [simp]:
  "lastBlock (log l m e s) = lastBlock s" "olderBlocks (log l m e s) = olderBlocks s"
  "finalizedHeight (log l m e s) = finalizedHeight s" "tempBlocks (log l m e s) = tempBlocks s"
  "p_stop (log l m e s) = p_stop s" "isActive (log l m e s) = isActive s"
  "syncRuns (log l m e s) = syncRuns s" "events (log l m e s) = events s"
  "network (log l m e s) = network s" "logs (log l m e s) = logs s @ [(l, m, e)]"
  by (simp_all add: log_def)

lemma applyPenaltyOnPeer_fields [simp]:
  "lastBlock (applyPenaltyOnPeer p n s) = lastBlock s" "olderBlocks (applyPenaltyOnPeer p n s) = olderBlocks s"
  "finalizedHeight (applyPenaltyOnPeer p n s) = finalizedHeight s" "tempBlocks (applyPenaltyOnPeer p n s) = tempBlocks s"
  "p_stop (applyPenaltyOnPeer p n s) = p_stop s" "isActive (applyPenaltyOnPeer p n s) = isActive s"
  "syncRuns (applyPenaltyOnPeer p n s) = syncRuns s" "events (applyPenaltyOnPeer p n s) = events s"
  "network (applyPenaltyOnPeer p n s) = network s @ [ApplyPenaltyOnPeer p n]" "logs (applyPenaltyOnPeer p n s) = logs s"
  by (simp_all add: applyPenaltyOnPeer_def)

lemma applyNodeInfo_fields [simp]:
  "lastBlock (applyNodeInfo b s) = lastBlock s" "olderBlocks (applyNodeInfo b s) = olderBlocks s"
  "finalizedHeight (applyNodeInfo b s) = finalizedHeight s" "tempBlocks (applyNodeInfo b s) = tempBlocks s"
  "p_stop (applyNodeInfo b s) = p_stop s" "isActive (applyNodeInfo b s) = isActive s"
  "syncRuns (applyNodeInfo b s) = syncRuns s" "events (applyNodeInfo b s) = events s"
  "logs (applyNodeInfo b s) = logs s"
  by (simp_all add: applyNodeInfo_def)

lemma broadcast_fields [simp]:
  "lastBlock (broadcast b opts s) = lastBlock s" "olderBlocks (broadcast b opts s) = olderBlocks s"
  "finalizedHeight (broadcast b opts s) = finalizedHeight s" "tempBlocks (broadcast b opts s) = tempBlocks s"
  "p_stop (broadcast b opts s) = p_stop s" "isActive (broadcast b opts s) = isActive s"
  "syncRuns (broadcast b opts s) = syncRuns s" "logs (broadcast b opts s) = logs s"
  by (simp_all add: broadcast_def emit_def)

lemma kept_emit [simp]: "kept s (emit ev s')  = kept s s'"
  by (simp add: kept_def chainBlocks_def)
lemma kept_log [simp]: "kept s (log l m e s')  = kept s s'"
  by (simp add: kept_def chainBlocks_def)
lemma kept_penalty [simp]: "kept s (applyPenaltyOnPeer p n s')  = kept s s'"
  by (simp add: kept_def chainBlocks_def)
lemma kept_nodeinfo [simp]: "kept s (applyNodeInfo b s')  = kept s s'"
  by (simp add: kept_def chainBlocks_def)
lemma kept_broadcast [simp]: "kept s (broadcast b opts s')  = kept s s'"
  by (simp add: kept_def chainBlocks_def)
lemma kept_emit2 [simp]: "kept (emit ev s) s'  = kept s s'"
  by (simp add: kept_def chainBlocks_def)
lemma kept_log2 [simp]: "kept (log l m e s) s'  = kept s s'"
  by (simp add: kept_def chainBlocks_def)
lemma kept_penalty2 [simp]: "kept (applyPenaltyOnPeer p n s) s'  = kept s s'"
  by (simp add: kept_def chainBlocks_def)

lemma kept_broadcast2 [simp]: "kept (broadcast b opts s) s'  = kept s s'"
  by (simp add: kept_def chainBlocks_def)

lemma kept_saveBlock: "fh \<ge> finalizedHeight s \<Longrightarrow> kept s (snd (chain_saveBlock env block fh r s))"
  by (simp add: chain_saveBlock_def kept_def chainBlocks_def split: option.split)

lemma kept_removeBlock:
  "finalizedHeight s < height (header (lastBlock s)) \<Longrightarrow> kept s (snd (chain_removeBlock env block r s))"
  by (simp add: chain_removeBlock_def kept_def chainBlocks_def split: option.split list.split)

lemma kept_executeValidated: "kept s (snd (p_executeValidated env block options s))"
proof -
  have *: "kept s (snd (chain_saveBlock env block fh r (broadcast block options s)))"
    if "fh \<ge> finalizedHeight s" for fh r
    using kept_saveBlock [of "broadcast block options s" fh env block r] that by simp
  show ?thesis
    unfolding p_executeValidated_def Let_def
    by (simp add: kept_refl case_prod_beta * split: option.split sum.split)
qed

lemma kept_deleteBlock:
  "block = lastBlock s \<Longrightarrow> kept s (snd (p_deleteBlock env block saveTemp s))"
  unfolding p_deleteBlock_def
  using kept_removeBlock [of s env block saveTemp]
  by (simp add: kept_refl case_prod_beta split: sum.split)

lemma kept_deleteLastBlock: "kept s (snd (p_deleteLastBlock env opts s))"
  unfolding p_deleteLastBlock_def Let_def
  using kept_deleteBlock [of "lastBlock (log Debug ''Deleting last block'' None s)" "log Debug ''Deleting last block'' None s" env]
  by (simp add: kept_refl)

lemma kept_runSync: "kept s (snd (runSync env prog s))"
proof (induction prog arbitrary: s)
  case (CallDeleteLastBlock opts k)
  show ?case
    using kept_trans [OF kept_deleteLastBlock CallDeleteLastBlock.IH]
    by (simp add: split_beta)
next
  case (CallExecuteValidated block options k)
  show ?case
    using kept_trans [OF kept_executeValidated CallExecuteValidated.IH]
    by (simp add: split_beta)
qed (simp_all add: kept_refl)


lemma kept_synchronizer_run_on: "kept s (snd (synchronizer_run_on env block peerID s))"
proof -
  have "kept (s\<lparr>syncRuns := Suc (syncRuns s)\<rparr>)
          (snd (runSync env (synchronizer_run env s block peerID) (s\<lparr>syncRuns := Suc (syncRuns s)\<rparr>)))"
    by (rule kept_runSync)
  then show ?thesis
    by (simp add: synchronizer_run_on_def kept_def chainBlocks_def)
qed

lemma kept_sync_aux:
  assumes "p_sync env0 block0 peerID0 s0 = Some y0"
  shows "kept s0 (snd y0)"
proof (rule p_sync.raw_induct [where P = "\<lambda>env block peerID s y. kept s (snd y)", OF _ assms], goal_cases)
  case (1 f env block peerID s y)
  obtain r s1 where run: "synchronizer_run_on env block peerID s = (r, s1)"
    by (cases "synchronizer_run_on env block peerID s")
  have k1: "kept s s1"
    using kept_synchronizer_run_on [of s env block peerID] run by simp
  show ?case
  proof (cases "p_stop s")
    case True
    with 1(2) show ?thesis by (auto simp: kept_refl)
  next
    case False
    show ?thesis
    proof (cases r)
      case None
      with False run 1(2) k1 show ?thesis by auto
    next
      case (Some err)
      show ?thesis
      proof (cases err)
        case (ApplyPenaltyAndRestartError m)
        with False run Some 1(2)
        have a: "f env block peerID (applyPenaltyOnPeer peerID 100 s1) = Some y" by simp
        from 1(1) [OF a] show ?thesis by (simp add: kept_trans [OF k1])
      next
        case (RestartError m)
        with False run Some 1(2) have a: "f env block peerID s1 = Some y" by simp
        from 1(1) [OF a] show ?thesis by (rule kept_trans [OF k1])
      next
        case (AbortError m)
        with False run Some 1(2) k1 show ?thesis by auto
      next
        case (ApplyPenaltyError m)
        with False run Some 1(2) k1 show ?thesis by auto
      next
        case (Error m)
        with False run Some 1(2) k1 show ?thesis by auto
      qed
    qed
  qed
qed

lemma kept_sync: "p_sync env block peerID s = Some (r, s') \<Longrightarrow> kept s s'"
  using kept_sync_aux [of env block peerID s "(r, s')"] by simp

lemma kept_tieBreak:
  "lastBlock0 = lastBlock s1 \<Longrightarrow> kept s1 (snd (tieBreak env block lastBlock0 s1))"
proof -
  assume lb: "lastBlock0 = lastBlock s1"
  let ?d = "p_deleteBlock env lastBlock0 False s1"
  let ?x = "p_executeValidated env block defaultExecuteOptions (snd ?d)"
  let ?s4 = "log ErrorLevel ''Failed to apply newly received block. restoring previous block.''"
  have d: "kept s1 (snd ?d)" using lb by (rule kept_deleteBlock)
  have x: "kept s1 (snd ?x)" by (rule kept_trans [OF d kept_executeValidated])
  have r: "kept s1 (snd (p_executeValidated env lastBlock0 restoreOptions (?s4 e (snd ?x))))" for e
    using kept_trans [OF x, of "snd (p_executeValidated env lastBlock0 restoreOptions (?s4 e (snd ?x)))"]
      kept_executeValidated [of "?s4 e (snd ?x)" env lastBlock0 restoreOptions]
    by simp
  show ?thesis
    unfolding tieBreak_def Let_def
    by (simp add: case_prod_beta kept_refl d x r split: sum.split)
qed


lemma kept_execute: "p_execute env block peerID s = Some (r, s') \<Longrightarrow> kept s s'"
proof -
  assume a: "p_execute env block peerID s = Some (r, s')"
  let ?s0 = "log Debug ''Starting to process block'' None s"
  have tb: "kept s s'"
    if "tieBreak env block (lastBlock s) (emit ev (log l m None ?s0)) = (r, s')" for ev l m
    using kept_tieBreak [of "lastBlock s" "emit ev (log l m None ?s0)" env block] that by simp
  have sy: "kept s s'"
    if "p_sync env block peerID (emit ev (log l m None ?s0)) = Some (r, s')" for ev l m
    using kept_sync [of env block peerID "emit ev (log l m None ?s0)" r s'] that by simp
  have ex: "kept s (snd (p_executeValidated env block defaultExecuteOptions (log l m None ?s0)))" for l m
    using kept_executeValidated [of "log l m None ?s0" env block defaultExecuteOptions] by simp
  show ?thesis
    using a unfolding p_execute_def Let_def
    by (auto simp: kept_refl case_prod_beta ex split: if_splits sum.splits intro: sy tb)
qed

lemma kept_onBlockReceive: "onBlockReceive env d peer s = Some (r, s') \<Longrightarrow> kept s s'"
  unfolding onBlockReceive_def
  by (auto simp: kept_refl split: if_splits post_data.splits sum.splits option.splits)
    (erule kept_execute)+

lemma kept_execute_public: "execute env block s = Some (r, s') \<Longrightarrow> kept s s'"
  unfolding execute_def runExclusive_def
  using kept_executeValidated [of s env block defaultExecuteOptions]
  by (auto simp: case_prod_beta split: sum.splits if_splits)

lemma kept_stop: "stop s = Some s' \<Longrightarrow> kept s s'"
  by (auto simp: stop_def kept_def chainBlocks_def split: if_splits)

lemma kept_apply_operation: "apply_operation env op s = Some s' \<Longrightarrow> kept s s'"
proof (cases op)
  case (OpOnBlockReceive d peer)
  assume "apply_operation env op s = Some s'"
  with OpOnBlockReceive show ?thesis by (auto dest: kept_onBlockReceive)
qed (auto simp: kept_deleteLastBlock kept_executeValidated
      elim: kept_execute_public kept_stop)

lemma kept_run_operations: "run_operations env ops s = Some s' \<Longrightarrow> kept s s'"
proof (induction ops arbitrary: s)
  case Nil
  then show ?case by (simp add: kept_refl)
next
  case (Cons op ops)
  then show ?case
    by (auto split: option.splits intro: kept_trans dest: kept_apply_operation)
qed


text \<open>What a failed \<open>_executeValidated\<close> leaves behind.\<close>

lemma saveBlock_Inl:
  "chain_saveBlock env block fh r s1 = (Inl e, s2) \<Longrightarrow> s2 = s1"
  by (simp add: chain_saveBlock_def split: option.splits)

lemma executeValidated_Inl:
  "p_executeValidated env block options s = (Inl e, s') \<Longrightarrow>
     (stateMachine_verifyBlock env s block \<noteq> None \<and> s' = s)
     \<or> (stateMachine_verifyBlock env s block = None \<and> s' = broadcast block options s)"
proof (cases "stateMachine_verifyBlock env s block")
  case (Some a)
  assume "p_executeValidated env block options s = (Inl e, s')"
  with Some show ?thesis by (simp add: p_executeValidated_def)
next
  case None
  assume a: "p_executeValidated env block options s = (Inl e, s')"
  have "s' = broadcast block options s"
    using a None unfolding p_executeValidated_def Let_def
    by (simp add: case_prod_beta split: option.splits sum.splits)
       (metis saveBlock_Inl prod.collapse)+
  with None show ?thesis by simp
qed

section \<open>The finalized height\<close>

text \<open>
  C3. The finalized height never decreases. A successful \<open>_executeValidated\<close> saves
  the greater of the finalized height before and the \<open>maxHeightPrecommitted\<close> the BFT
  API reports; a failed one leaves it as it was; and no sequence of operations on the
  coordinator (execute, onBlockReceive with its tie-break and synchronization, stop,
  and the deleteLastBlock and executeValidated of the BlockExecutor) ends with a smaller
  finalized height than it started with.
\<close>

theorem finalizedHeight_non_decreasing:
  "(\<forall>b s'. p_executeValidated env block options s = (Inr b, s') \<longrightarrow>
       (\<exists>m. getBFTHeights env (broadcast block options s) block = Inr m
            \<and> finalizedHeight s' = max (finalizedHeight s) m))
   \<and> finalizedHeight s \<le> finalizedHeight (snd (p_executeValidated env block options s))
   \<and> (\<forall>s''. run_operations env ops s = Some s'' \<longrightarrow> finalizedHeight s \<le> finalizedHeight s'')"
proof (intro conjI allI impI)
  fix b s'
  assume "p_executeValidated env block options s = (Inr b, s')"
  then show "\<exists>m. getBFTHeights env (broadcast block options s) block = Inr m
            \<and> finalizedHeight s' = max (finalizedHeight s) m"
    unfolding p_executeValidated_def Let_def chain_saveBlock_def
    by (auto simp: max_def split: option.splits sum.splits if_splits)
next
  show "finalizedHeight s \<le> finalizedHeight (snd (p_executeValidated env block options s))"
    using kept_executeValidated [of s env block options] by (simp add: kept_def)
next
  fix s''
  assume "run_operations env ops s = Some s''"
  then show "finalizedHeight s \<le> finalizedHeight s''"
    by (auto dest: kept_run_operations simp: kept_def)
qed


theorem finalizedHeight_non_decreasing_witness:
  "(\<exists>s'. p_executeValidated example_env example_block2 defaultExecuteOptions example_state
           = (Inr example_block2, s')
         \<and> finalizedHeight example_state = 0 \<and> finalizedHeight s' = 1)
   \<and> (\<exists>s''. run_operations example_env
             [OpExecute example_block2, OpDeleteLastBlock \<lparr>saveTempBlock = None\<rparr>]
             example_state = Some s''
          \<and> finalizedHeight example_state \<le> finalizedHeight s'')"
  using finalizedHeight_non_decreasing [of example_env example_block2 defaultExecuteOptions
      example_state "[OpExecute example_block2, OpDeleteLastBlock \<lparr>saveTempBlock = None\<rparr>]"]
  by (simp add: example_defs method_defs)

section \<open>Deleting a block\<close>

text \<open>
  C4. A block at or below the finalized height is never deleted. \<open>_deleteBlock\<close>
  throws for such a block before it touches the chain, and so do the two paths that lead
  to it while the coordinator is running: \<open>_deleteLastBlock\<close> (when the tip is at or
  below the finalized height) and the tie-break branch of \<open>_execute\<close>, which ends
  with an error, the chain and the finalized height as before and no BLOCK_DELETE event.
  Hence no sequence of operations removes from the chain a block that was at or below
  the finalized height; the block at exactly the finalized height is the boundary case.
\<close>

theorem no_delete_at_or_below_finalizedHeight:
  "(height (header block) \<le> finalizedHeight s \<longrightarrow>
      p_deleteBlock env block saveTemp s
        = (Inl (Error ''Can not delete block below or same as finalized height''), s))
   \<and> (\<not> p_stop s \<and> height (header (lastBlock s)) \<le> finalizedHeight s \<longrightarrow>
      p_deleteLastBlock env opts s
        = (Inl (Error ''Can not delete block below or same as finalized height''),
           log Debug ''Deleting last block'' None s))
   \<and> (\<not> p_stop s \<and> forkChoice env (header received) (header (lastBlock s)) = TIE_BREAK
        \<and> height (header (lastBlock s)) \<le> finalizedHeight s \<longrightarrow>
      (\<exists>e s'. p_execute env received peer s = Some (Inl e, s')
         \<and> chainBlocks s' = chainBlocks s \<and> finalizedHeight s' = finalizedHeight s
         \<and> events s' = events s @ [CONSENSUS_EVENT_FORK_DETECTED received]))
   \<and> (\<forall>s'. run_operations env ops s = Some s' \<longrightarrow>
        (\<forall>b \<in> set (chainBlocks s).
           height (header b) \<le> finalizedHeight s \<longrightarrow> b \<in> set (chainBlocks s')))"
proof (intro conjI impI allI ballI)
  assume "height (header block) \<le> finalizedHeight s"
  then show "p_deleteBlock env block saveTemp s
        = (Inl (Error ''Can not delete block below or same as finalized height''), s)"
    by (simp add: p_deleteBlock_def)
next
  assume "\<not> p_stop s \<and> height (header (lastBlock s)) \<le> finalizedHeight s"
  then show "p_deleteLastBlock env opts s
        = (Inl (Error ''Can not delete block below or same as finalized height''),
           log Debug ''Deleting last block'' None s)"
    by (simp add: p_deleteLastBlock_def p_deleteBlock_def Let_def)
next
  assume a: "\<not> p_stop s \<and> forkChoice env (header received) (header (lastBlock s)) = TIE_BREAK
        \<and> height (header (lastBlock s)) \<le> finalizedHeight s"
  let ?s1 = "emit (CONSENSUS_EVENT_FORK_DETECTED received)
               (log Info ''Received tie breaking block'' None
                  (log Debug ''Starting to process block'' None s))"
  have ex: "p_execute env received peer s = Some (tieBreak env received (lastBlock s) ?s1)"
    using a by (simp add: p_execute_def Let_def forkStatusList_def)
  have tb: "\<exists>e. tieBreak env received (lastBlock s) ?s1 = (Inl e, ?s1)"
    using a by (simp add: tieBreak_def p_deleteBlock_def Let_def split: sum.split)
  show "\<exists>e s'. p_execute env received peer s = Some (Inl e, s')
         \<and> chainBlocks s' = chainBlocks s \<and> finalizedHeight s' = finalizedHeight s
         \<and> events s' = events s @ [CONSENSUS_EVENT_FORK_DETECTED received]"
    using ex tb by (auto simp: chainBlocks_def)
next
  fix s' b
  assume "run_operations env ops s = Some s'" "b \<in> set (chainBlocks s)"
    "height (header b) \<le> finalizedHeight s"
  then show "b \<in> set (chainBlocks s')"
    using kept_run_operations [of env ops s s'] by (simp add: kept_def)
qed

theorem no_delete_at_or_below_finalizedHeight_witness:
  "height (header example_block1) \<le> finalizedHeight (example_state\<lparr>finalizedHeight := 1\<rparr>)
   \<and> \<not> p_stop (example_state\<lparr>finalizedHeight := 1\<rparr>)
   \<and> lastBlock (example_state\<lparr>finalizedHeight := 1\<rparr>) = example_block1
   \<and> forkChoice example_env (header example_tie) (header example_block1) = TIE_BREAK
   \<and> fst (p_deleteBlock example_env example_block1 False (example_state\<lparr>finalizedHeight := 1\<rparr>))
       = Inl (Error ''Can not delete block below or same as finalized height'')
   \<and> fst (p_deleteLastBlock example_env \<lparr>saveTempBlock = None\<rparr>
             (example_state\<lparr>finalizedHeight := 1\<rparr>))
       = Inl (Error ''Can not delete block below or same as finalized height'')
   \<and> (\<exists>e s'. p_execute example_env example_tie ''peer'' (example_state\<lparr>finalizedHeight := 1\<rparr>)
               = Some (Inl e, s')
         \<and> chainBlocks s' = [example_block1, example_genesis])
   \<and> (\<exists>s'. run_operations example_env
              [OpDeleteLastBlock \<lparr>saveTempBlock = None\<rparr>, OpOnBlockReceive (BufferData [3]) ''peer'']
              (example_state\<lparr>finalizedHeight := 1\<rparr>) = Some s'
         \<and> example_block1 \<in> set (chainBlocks s') \<and> example_genesis \<in> set (chainBlocks s'))"
  using no_delete_at_or_below_finalizedHeight [of example_block1
      "example_state\<lparr>finalizedHeight := 1\<rparr>" example_env False "\<lparr>saveTempBlock = None\<rparr>"
      example_tie "''peer''"
      "[OpDeleteLastBlock \<lparr>saveTempBlock = None\<rparr>, OpOnBlockReceive (BufferData [3]) ''peer'']"]
  by (simp add: example_defs method_defs)

section \<open>A failing execution\<close>

text \<open>
  C2 as stated does not hold: the broadcast is not the last step. The block is sent and
  BLOCK_BROADCAST is emitted right after the verification by the state machine, before
  the block is executed and saved. Here the execution of \<open>example_block2\<close> fails and
  the broadcast has happened.
\<close>

theorem executeValidated_error_after_broadcast:
  "p_executeValidated (example_env_rejecting example_block2) example_block2
      defaultExecuteOptions example_state
   = (Inl (Error ''Invalid transaction''),
      example_state\<lparr>network := [NETWORK_EVENT_POST_BLOCK example_block2],
                    events := [CONSENSUS_EVENT_BLOCK_BROADCAST example_block2]\<rparr>)"
  by (simp add: example_env_rejecting_def example_defs method_defs)

text \<open>
  C2, as the code has it. When \<open>_executeValidated\<close> throws, the block is not saved:
  the chain, the finalized height and the temp table are as before and BLOCK_NEW is not
  emitted. When the verification by the state machine throws, or \<open>skipBroadcast\<close> is
  set, nothing at all has happened. Otherwise the block was sent to the network and
  BLOCK_BROADCAST was emitted before the state machine executed the block, and that is
  the one effect of the failed call.
\<close>

theorem executeValidated_error_effects:
  "p_executeValidated env block options s = (Inl e, s') \<longrightarrow>
     lastBlock s' = lastBlock s \<and> olderBlocks s' = olderBlocks s
     \<and> finalizedHeight s' = finalizedHeight s \<and> tempBlocks s' = tempBlocks s
     \<and> (if skipBroadcast options = Some True \<or> stateMachine_verifyBlock env s block \<noteq> None
         then s' = s
         else s' = broadcast block options s
              \<and> events s' = events s @ [CONSENSUS_EVENT_BLOCK_BROADCAST block]
              \<and> network s' = network s @ [NETWORK_EVENT_POST_BLOCK block])"
proof
  assume "p_executeValidated env block options s = (Inl e, s')"
  from executeValidated_Inl [OF this]
  show "lastBlock s' = lastBlock s \<and> olderBlocks s' = olderBlocks s
     \<and> finalizedHeight s' = finalizedHeight s \<and> tempBlocks s' = tempBlocks s
     \<and> (if skipBroadcast options = Some True \<or> stateMachine_verifyBlock env s block \<noteq> None
         then s' = s
         else s' = broadcast block options s
              \<and> events s' = events s @ [CONSENSUS_EVENT_BLOCK_BROADCAST block]
              \<and> network s' = network s @ [NETWORK_EVENT_POST_BLOCK block])"
    by (auto simp: broadcast_def emit_def)
qed

theorem executeValidated_error_effects_witness:
  "(\<exists>e s'. p_executeValidated (example_env_rejecting example_block2) example_block2
              defaultExecuteOptions example_state = (Inl e, s')
      \<and> lastBlock s' = example_block1 \<and> finalizedHeight s' = 0
      \<and> events s' = [CONSENSUS_EVENT_BLOCK_BROADCAST example_block2])"
  using executeValidated_error_effects [of "example_env_rejecting example_block2" example_block2
      defaultExecuteOptions example_state "Error ''Invalid transaction''"
      "snd (p_executeValidated (example_env_rejecting example_block2) example_block2
              defaultExecuteOptions example_state)"]
  by (simp add: example_env_rejecting_def example_defs method_defs)

section \<open>The tie break\<close>

text \<open>
  C1 as stated does not hold: the \<open>catch\<close> of the tie-break branch logs the error
  and restores the previous tip, and \<open>_execute\<close> then returns. Here
  \<open>example_tie\<close> replaces the tip \<open>example_block1\<close>, its execution fails, the tip
  is restored without a broadcast, and the processing returns normally.
\<close>

theorem tieBreak_error_not_propagated:
  "forkChoice (example_env_rejecting example_tie) (header example_tie)
      (header (lastBlock example_state)) = TIE_BREAK
   \<and> p_execute (example_env_rejecting example_tie) example_tie ''peer'' example_state
     = Some (Inr (),
         example_state\<lparr>
           events := [CONSENSUS_EVENT_FORK_DETECTED example_tie,
                      CONSENSUS_EVENT_BLOCK_DELETE example_block1,
                      CONSENSUS_EVENT_BLOCK_BROADCAST example_tie,
                      CONSENSUS_EVENT_BLOCK_NEW example_block1],
           network := [NETWORK_EVENT_POST_BLOCK example_tie],
           logs := [(Debug, ''Starting to process block'', None),
                    (Info, ''Received tie breaking block'', None),
                    (ErrorLevel,
                     ''Failed to apply newly received block. restoring previous block.'',
                     Some (Error ''Invalid transaction''))]\<rparr>)"
  by (simp add: example_env_rejecting_def example_defs method_defs Let_def)

text \<open>
  C1, as the code has it. In the tie-break branch, when the received block was verified,
  the tip was deleted and executing the received block threw \<open>err\<close>, the processor
  logs \<open>err\<close> and calls \<open>_executeValidated\<close> on the previous tip with
  \<open>skipBroadcast\<close> set. The outcome of processing is the outcome of that call: it
  returns when the restoring call returns and throws what the restoring call throws.
  \<open>err\<close> itself is not thrown again.
\<close>

theorem tieBreak_restores_previous_block:
  "\<not> p_stop s
   \<and> forkChoice env (header block) (header (lastBlock s)) = TIE_BREAK
   \<and> s1 = emit (CONSENSUS_EVENT_FORK_DETECTED block)
            (log Info ''Received tie breaking block'' None
               (log Debug ''Starting to process block'' None s))
   \<and> p_verify env block s1 = Inr ()
   \<and> p_deleteBlock env (lastBlock s) False s1 = (Inr (), s2)
   \<and> p_executeValidated env block defaultExecuteOptions s2 = (Inl err, s3)
   \<longrightarrow>
     skipBroadcast restoreOptions = Some True
     \<and> p_execute env block peer s =
         Some (case p_executeValidated env (lastBlock s) restoreOptions
                      (log ErrorLevel
                         ''Failed to apply newly received block. restoring previous block.''
                         (Some err) s3) of
                 (Inl e, s5) \<Rightarrow> (Inl e, s5)
               | (Inr b, s5) \<Rightarrow> (Inr (), s5))"
  by (clarsimp simp: p_execute_def tieBreak_def Let_def forkStatusList_def restoreOptions_def)

theorem tieBreak_restores_previous_block_witness:
  "\<not> p_stop example_state
   \<and> forkChoice (example_env_rejecting example_tie) (header example_tie)
        (header (lastBlock example_state)) = TIE_BREAK
   \<and> (\<exists>s2 s3. p_deleteBlock (example_env_rejecting example_tie) (lastBlock example_state) False
                 (emit (CONSENSUS_EVENT_FORK_DETECTED example_tie)
                    (log Info ''Received tie breaking block'' None
                       (log Debug ''Starting to process block'' None example_state)))
               = (Inr (), s2)
         \<and> p_executeValidated (example_env_rejecting example_tie) example_tie
               defaultExecuteOptions s2 = (Inl (Error ''Invalid transaction''), s3)
         \<and> p_execute (example_env_rejecting example_tie) example_tie ''peer'' example_state
             = Some (case p_executeValidated (example_env_rejecting example_tie)
                            (lastBlock example_state) restoreOptions
                            (log ErrorLevel
                               ''Failed to apply newly received block. restoring previous block.''
                               (Some (Error ''Invalid transaction'')) s3) of
                       (Inl e, s5) \<Rightarrow> (Inl e, s5)
                     | (Inr b, s5) \<Rightarrow> (Inr (), s5)))"
proof -
  let ?env = "example_env_rejecting example_tie"
  let ?s1 = "emit (CONSENSUS_EVENT_FORK_DETECTED example_tie)
               (log Info ''Received tie breaking block'' None
                  (log Debug ''Starting to process block'' None example_state))"
  let ?s2 = "snd (p_deleteBlock ?env (lastBlock example_state) False ?s1)"
  let ?s3 = "snd (p_executeValidated ?env example_tie defaultExecuteOptions ?s2)"
  have a: "\<not> p_stop example_state" by (simp add: example_defs)
  have b: "forkChoice ?env (header example_tie) (header (lastBlock example_state)) = TIE_BREAK"
    by (simp add: example_env_rejecting_def example_defs method_defs)
  have c: "p_verify ?env example_tie ?s1 = Inr ()"
    by (simp add: example_env_rejecting_def example_defs method_defs)
  have d: "p_deleteBlock ?env (lastBlock example_state) False ?s1 = (Inr (), ?s2)"
    by (simp add: example_env_rejecting_def example_defs method_defs)
  have e: "p_executeValidated ?env example_tie defaultExecuteOptions ?s2
             = (Inl (Error ''Invalid transaction''), ?s3)"
    by (simp add: example_env_rejecting_def example_defs method_defs)
  from tieBreak_restores_previous_block [of example_state ?env example_tie ?s1 ?s2
      "Error ''Invalid transaction''" ?s3 "''peer''"] a b c d e
  show ?thesis by blast
qed

section \<open>Errors of the synchronizer\<close>

text \<open>
  C5. \<open>_sync\<close> on a running coordinator translates what the run of the synchronizer
  throws: after \<open>ApplyPenaltyAndRestartError\<close> the peer gets a penalty of 100 and the
  synchronization runs again; after \<open>RestartError\<close> it runs again without a penalty;
  \<open>AbortError\<close> is logged and \<open>_sync\<close> returns; every other error is thrown to
  the caller; and when the run returns, \<open>_sync\<close> returns.
\<close>

theorem sync_error_translation:
  "\<not> p_stop s \<longrightarrow>
     (synchronizer_run_on env block peerID s = (Some (ApplyPenaltyAndRestartError m), s1) \<longrightarrow>
        p_sync env block peerID s
          = p_sync env block peerID (s1\<lparr>network := network s1 @ [ApplyPenaltyOnPeer peerID 100]\<rparr>))
   \<and> (synchronizer_run_on env block peerID s = (Some (RestartError m), s1) \<longrightarrow>
        p_sync env block peerID s = p_sync env block peerID s1)
   \<and> (synchronizer_run_on env block peerID s = (Some (AbortError m), s1) \<longrightarrow>
        p_sync env block peerID s
          = Some (Inr (), s1\<lparr>logs := logs s1 @
                    [(Info, ''Aborting synchronization mechanism'', Some (AbortError m))]\<rparr>))
   \<and> (synchronizer_run_on env block peerID s = (Some e, s1)
        \<and> (\<forall>m'. e \<noteq> ApplyPenaltyAndRestartError m' \<and> e \<noteq> RestartError m' \<and> e \<noteq> AbortError m') \<longrightarrow>
        p_sync env block peerID s = Some (Inl e, s1))
   \<and> (synchronizer_run_on env block peerID s = (None, s1) \<longrightarrow>
        p_sync env block peerID s = Some (Inr (), s1))"
proof (intro impI conjI)
  assume ns: "\<not> p_stop s"
  {
    assume "synchronizer_run_on env block peerID s = (Some (ApplyPenaltyAndRestartError m), s1)"
    with ns show "p_sync env block peerID s
          = p_sync env block peerID (s1\<lparr>network := network s1 @ [ApplyPenaltyOnPeer peerID 100]\<rparr>)"
      by (subst p_sync.simps) (simp add: applyPenaltyOnPeer_def)
  }
  {
    assume "synchronizer_run_on env block peerID s = (Some (RestartError m), s1)"
    with ns show "p_sync env block peerID s = p_sync env block peerID s1"
      by (subst p_sync.simps) simp
  }
  {
    assume "synchronizer_run_on env block peerID s = (Some (AbortError m), s1)"
    with ns show "p_sync env block peerID s
          = Some (Inr (), s1\<lparr>logs := logs s1 @
                    [(Info, ''Aborting synchronization mechanism'', Some (AbortError m))]\<rparr>)"
      by (subst p_sync.simps) (simp add: log_def)
  }
  {
    assume "synchronizer_run_on env block peerID s = (Some e, s1)
        \<and> (\<forall>m'. e \<noteq> ApplyPenaltyAndRestartError m' \<and> e \<noteq> RestartError m' \<and> e \<noteq> AbortError m')"
    with ns show "p_sync env block peerID s = Some (Inl e, s1)"
      by (subst p_sync.simps) (cases e; simp)
  }
  {
    assume "synchronizer_run_on env block peerID s = (None, s1)"
    with ns show "p_sync env block peerID s = Some (Inr (), s1)"
      by (subst p_sync.simps) simp
  }
qed

theorem sync_error_translation_witness:
  "p_sync example_env_restarting example_block2 ''peer'' example_state
     = Some (Inr (),
         example_state\<lparr>syncRuns := 3, network := [ApplyPenaltyOnPeer ''peer'' 100],
           logs := [(Info, ''Aborting synchronization mechanism'',
                     Some (AbortError ''No common block''))]\<rparr>)
   \<and> p_sync (example_env\<lparr>synchronizer_run := (\<lambda>s b peer. SyncThrow (Error ''Database failure''))\<rparr>)
         example_block2 ''peer'' example_state
       = Some (Inl (Error ''Database failure''), example_state\<lparr>syncRuns := 1\<rparr>)
   \<and> p_sync example_env example_block2 ''peer'' example_state
       = Some (Inr (), example_state\<lparr>syncRuns := 1\<rparr>)"
proof -
  let ?env = example_env_restarting
  let ?s1 = "example_state\<lparr>syncRuns := 1\<rparr>"
  let ?s1p = "example_state\<lparr>syncRuns := 1, network := [ApplyPenaltyOnPeer ''peer'' 100]\<rparr>"
  let ?s2 = "example_state\<lparr>syncRuns := 2, network := [ApplyPenaltyOnPeer ''peer'' 100]\<rparr>"
  let ?s3 = "example_state\<lparr>syncRuns := 3, network := [ApplyPenaltyOnPeer ''peer'' 100]\<rparr>"
  let ?envE = "example_env\<lparr>synchronizer_run := (\<lambda>s b peer. SyncThrow (Error ''Database failure''))\<rparr>"
  have r0: "synchronizer_run_on ?env example_block2 ''peer'' example_state
              = (Some (ApplyPenaltyAndRestartError ''Invalid block''), ?s1)"
    by (simp add: synchronizer_run_on_def example_env_restarting_def example_defs)
  have r1: "synchronizer_run_on ?env example_block2 ''peer'' ?s1p = (Some (RestartError ''Timeout''), ?s2)"
    by (simp add: synchronizer_run_on_def example_env_restarting_def example_defs)
  have r2: "synchronizer_run_on ?env example_block2 ''peer'' ?s2
              = (Some (AbortError ''No common block''), ?s3)"
    by (simp add: synchronizer_run_on_def example_env_restarting_def example_defs)
  have r3: "synchronizer_run_on ?envE example_block2 ''peer'' example_state
              = (Some (Error ''Database failure''), ?s1)"
    by (simp add: synchronizer_run_on_def example_defs)
  have r4: "synchronizer_run_on example_env example_block2 ''peer'' example_state = (None, ?s1)"
    by (simp add: synchronizer_run_on_def example_defs)
  have ns: "\<not> p_stop example_state" "\<not> p_stop ?s1p" "\<not> p_stop ?s2"
    by (simp_all add: example_defs)
  have e0: "p_sync ?env example_block2 ''peer'' example_state = p_sync ?env example_block2 ''peer'' ?s1p"
    using sync_error_translation [of example_state ?env example_block2 "''peer''" "''Invalid block''" ?s1]
      ns r0 by (simp add: example_defs)
  have e1: "p_sync ?env example_block2 ''peer'' ?s1p = p_sync ?env example_block2 ''peer'' ?s2"
    using sync_error_translation [of ?s1p ?env example_block2 "''peer''" "''Timeout''" ?s2] ns r1
    by simp
  have e2: "p_sync ?env example_block2 ''peer'' ?s2
              = Some (Inr (), ?s3\<lparr>logs := [(Info, ''Aborting synchronization mechanism'',
                                             Some (AbortError ''No common block''))]\<rparr>)"
    using sync_error_translation [of ?s2 ?env example_block2 "''peer''" "''No common block''" ?s3]
      ns r2 by (simp add: example_defs)
  have e3: "p_sync ?envE example_block2 ''peer'' example_state = Some (Inl (Error ''Database failure''), ?s1)"
    using sync_error_translation [of example_state ?envE example_block2 "''peer''" _ ?s1
        "Error ''Database failure''"] ns r3
    by simp
  have e4: "p_sync example_env example_block2 ''peer'' example_state = Some (Inr (), ?s1)"
    using sync_error_translation [of example_state example_env example_block2 "''peer''" _ ?s1] ns r4
    by simp
  show ?thesis
    using e0 e1 e2 e3 e4 by (simp add: example_defs)
qed

section \<open>The stop flag\<close>

text \<open>
  The flag and the mutex are written by \<open>stop\<close> alone: every other method leaves
  both as they are.
\<close>

lemma flags_simps [simp]:
  "p_stop (broadcast b opts s) = p_stop s" "mutexLocked (broadcast b opts s) = mutexLocked s"
  "mutexLocked (emit ev s) = mutexLocked s" "mutexLocked (log l m e s) = mutexLocked s"
  "mutexLocked (applyPenaltyOnPeer p n s) = mutexLocked s"
  "mutexLocked (applyNodeInfo blk s) = mutexLocked s"
  by (simp_all add: broadcast_def emit_def log_def applyPenaltyOnPeer_def applyNodeInfo_def)

lemma flags_saveBlock:
  "p_stop (snd (chain_saveBlock env block fh r s)) = p_stop s
   \<and> mutexLocked (snd (chain_saveBlock env block fh r s)) = mutexLocked s"
  by (simp add: chain_saveBlock_def split: option.split)

lemma flags_removeBlock:
  "p_stop (snd (chain_removeBlock env block r s)) = p_stop s
   \<and> mutexLocked (snd (chain_removeBlock env block r s)) = mutexLocked s"
  by (simp add: chain_removeBlock_def split: option.split list.split)

lemma flags_executeValidated:
  "p_stop (snd (p_executeValidated env block options s)) = p_stop s
   \<and> mutexLocked (snd (p_executeValidated env block options s)) = mutexLocked s"
  unfolding p_executeValidated_def Let_def
  by (simp add: case_prod_beta flags_saveBlock split: option.split sum.split)

lemma flags_deleteBlock:
  "p_stop (snd (p_deleteBlock env block r s)) = p_stop s
   \<and> mutexLocked (snd (p_deleteBlock env block r s)) = mutexLocked s"
  unfolding p_deleteBlock_def
  by (simp add: case_prod_beta flags_removeBlock split: sum.split)

lemma flags_deleteLastBlock:
  "p_stop (snd (p_deleteLastBlock env opts s)) = p_stop s
   \<and> mutexLocked (snd (p_deleteLastBlock env opts s)) = mutexLocked s"
  unfolding p_deleteLastBlock_def Let_def
  by (simp add: flags_deleteBlock)

lemma flags_tieBreak:
  "p_stop (snd (tieBreak env block lastBlock0 s)) = p_stop s
   \<and> mutexLocked (snd (tieBreak env block lastBlock0 s)) = mutexLocked s"
  unfolding tieBreak_def Let_def
  by (simp add: case_prod_beta flags_executeValidated flags_deleteBlock split: sum.split)

lemma flags_runSync:
  "p_stop (snd (runSync env prog s)) = p_stop s
   \<and> mutexLocked (snd (runSync env prog s)) = mutexLocked s"
  by (induction prog arbitrary: s)
     (simp_all add: case_prod_beta flags_executeValidated flags_deleteLastBlock)

lemma flags_synchronizer_run_on:
  "p_stop (snd (synchronizer_run_on env block peerID s)) = p_stop s
   \<and> mutexLocked (snd (synchronizer_run_on env block peerID s)) = mutexLocked s"
  by (simp add: synchronizer_run_on_def flags_runSync)

lemma flags_sync_aux:
  assumes "p_sync env0 block0 peerID0 s0 = Some y0"
  shows "p_stop (snd y0) = p_stop s0 \<and> mutexLocked (snd y0) = mutexLocked s0"
proof (rule p_sync.raw_induct
    [where P = "\<lambda>env block peerID s y. p_stop (snd y) = p_stop s \<and> mutexLocked (snd y) = mutexLocked s",
     OF _ assms], goal_cases)
  case (1 f env block peerID s y)
  obtain r s1 where run: "synchronizer_run_on env block peerID s = (r, s1)"
    by (cases "synchronizer_run_on env block peerID s")
  have k1: "p_stop s1 = p_stop s \<and> mutexLocked s1 = mutexLocked s"
    using flags_synchronizer_run_on [of env block peerID s] run by simp
  show ?case
  proof (cases "p_stop s")
    case True
    with 1(2) show ?thesis by auto
  next
    case False
    show ?thesis
    proof (cases r)
      case None
      with False run 1(2) k1 show ?thesis by auto
    next
      case (Some err)
      show ?thesis
      proof (cases err)
        case (ApplyPenaltyAndRestartError m)
        with False run Some 1(2)
        have "f env block peerID (applyPenaltyOnPeer peerID 100 s1) = Some y" by simp
        from 1(1) [OF this] k1 show ?thesis by simp
      next
        case (RestartError m)
        with False run Some 1(2) have "f env block peerID s1 = Some y" by simp
        from 1(1) [OF this] k1 show ?thesis by simp
      next
        case (AbortError m)
        with False run Some 1(2) k1 show ?thesis by auto
      next
        case (ApplyPenaltyError m)
        with False run Some 1(2) k1 show ?thesis by auto
      next
        case (Error m)
        with False run Some 1(2) k1 show ?thesis by auto
      qed
    qed
  qed
qed

lemma flags_sync:
  "p_sync env block peerID s = Some (r, s') \<Longrightarrow>
     p_stop s' = p_stop s \<and> mutexLocked s' = mutexLocked s"
  using flags_sync_aux [of env block peerID s "(r, s')"] by simp

lemma flags_execute:
  assumes "p_execute env block peerID s = Some (r, s')"
  shows "p_stop s' = p_stop s \<and> mutexLocked s' = mutexLocked s"
proof -
  let ?s0 = "log Debug ''Starting to process block'' None s"
  have tb: "p_stop s' = p_stop s \<and> mutexLocked s' = mutexLocked s"
    if "tieBreak env block (lastBlock s) (emit ev (log l m None ?s0)) = (r, s')" for ev l m
    using flags_tieBreak [of env block "lastBlock s" "emit ev (log l m None ?s0)"] that by simp
  have sy: "p_stop s' = p_stop s \<and> mutexLocked s' = mutexLocked s"
    if "p_sync env block peerID (emit ev (log l m None ?s0)) = Some (r, s')" for ev l m
    using flags_sync [OF that] by simp
  have ex: "p_stop (snd (p_executeValidated env block defaultExecuteOptions (log l m None ?s0)))
              = p_stop s
            \<and> mutexLocked (snd (p_executeValidated env block defaultExecuteOptions
                                  (log l m None ?s0))) = mutexLocked s" for l m
    using flags_executeValidated [of env block defaultExecuteOptions "log l m None ?s0"] by simp
  show ?thesis
    using assms unfolding p_execute_def Let_def
    by (auto simp: case_prod_beta ex split: if_splits sum.splits dest: sy tb)
qed

lemma flags_onBlockReceive:
  "onBlockReceive env d peer s = Some (r, s') \<Longrightarrow>
     p_stop s' = p_stop s \<and> mutexLocked s' = mutexLocked s"
  unfolding onBlockReceive_def
  by (auto split: if_splits post_data.splits sum.splits option.splits dest!: flags_execute)

lemma flags_execute_public:
  "execute env block s = Some (r, s') \<Longrightarrow>
     p_stop s' = p_stop s \<and> mutexLocked s' = mutexLocked s"
  unfolding execute_def runExclusive_def
  using flags_executeValidated [of env block defaultExecuteOptions s]
  by (auto simp: case_prod_beta split: sum.splits if_splits)

text \<open>
  So a locked mutex means that the flag is set, in every state that the operations reach
  from a state where that holds: \<open>_execute\<close>, \<open>_deleteLastBlock\<close> and \<open>_sync\<close>,
  once past the test of the flag, find the mutex free.
\<close>

lemma locked_only_after_stop:
  "run_operations env ops s = Some s' \<Longrightarrow> (mutexLocked s \<longrightarrow> p_stop s) \<Longrightarrow>
     (mutexLocked s' \<longrightarrow> p_stop s')"
proof (induction ops arbitrary: s)
  case Nil
  then show ?case by simp
next
  case (Cons op ops)
  from Cons.prems(1) obtain s1 where step: "apply_operation env op s = Some s1"
    and rest: "run_operations env ops s1 = Some s'"
    by (auto split: option.splits)
  have "mutexLocked s1 \<longrightarrow> p_stop s1"
  proof (cases op)
    case (OpExecute block)
    with step Cons.prems(2) show ?thesis by (auto dest: flags_execute_public)
  next
    case (OpOnBlockReceive d peer)
    with step Cons.prems(2) show ?thesis by (auto dest: flags_onBlockReceive)
  next
    case OpStop
    with step show ?thesis by (auto simp: stop_def split: if_splits)
  next
    case (OpDeleteLastBlock opts)
    with step Cons.prems(2) flags_deleteLastBlock [of env opts s] show ?thesis by auto
  next
    case (OpExecuteValidated block options)
    with step Cons.prems(2) flags_executeValidated [of env block options s] show ?thesis by auto
  qed
  with Cons.IH [OF rest] show ?case by simp
qed

text \<open>
  C6. After \<open>stop\<close> every entry point that changes the chain should test the stop
  flag first and return without touching the chain. \<open>_execute\<close>,
  \<open>_deleteLastBlock\<close> and \<open>_sync\<close> do: on the stopped example coordinator they
  return at once with the state as it was. \<open>execute\<close> has no such test: called after
  \<open>stop\<close> it waits for the mutex that \<open>stop\<close> keeps and never returns. That
  the flag plays no part in it shows in the last line: with the flag set and the mutex
  free, \<open>execute\<close> executes and saves \<open>example_block2\<close>.
\<close>

theorem execute_after_stop_never_returns:
  "stop example_state = Some example_stopped
   \<and> p_stop example_stopped
   \<and> execute example_env example_block2 example_stopped = None
   \<and> p_execute example_env example_block2 ''peer'' example_stopped
     = Some (Inr (), example_stopped)
   \<and> p_deleteLastBlock example_env \<lparr>saveTempBlock = None\<rparr> example_stopped
     = (Inr (), example_stopped)
   \<and> p_sync example_env example_block2 ''peer'' example_stopped
     = Some (Inr (), example_stopped)
   \<and> execute example_env example_block2 (example_state\<lparr>p_stop := True\<rparr>)
     = Some (Inr (),
         example_state\<lparr>lastBlock := example_block2,
           olderBlocks := [example_block1, example_genesis],
           finalizedHeight := 1, p_stop := True,
           events := [CONSENSUS_EVENT_BLOCK_BROADCAST example_block2,
                      CONSENSUS_EVENT_BLOCK_NEW example_block2],
           network := [NETWORK_EVENT_POST_BLOCK example_block2]\<rparr>)"
  by (simp add: example_stopped_def example_defs method_defs p_sync.simps)

text \<open>
  The same for every state: the three private entry points return at once when the flag
  is set, and \<open>execute\<close> never returns once \<open>stop\<close> has returned.
\<close>

lemma stopped_returns:
  "p_stop s \<Longrightarrow> p_execute env block peer s = Some (Inr (), s)"
  "p_stop s \<Longrightarrow> p_deleteLastBlock env opts s = (Inr (), s)"
  "p_stop s \<Longrightarrow> p_sync env block peer s = Some (Inr (), s)"
  by (simp_all add: p_execute_def p_deleteLastBlock_def p_sync.simps)

lemma execute_after_stop:
  "stop s = Some s' \<Longrightarrow> p_stop s' \<and> execute env block s' = None"
  by (auto simp: stop_def execute_def runExclusive_def split: if_splits)

section \<open>Advertising the tip\<close>

text \<open>
  C7 as stated does not hold: \<open>applyNodeInfo\<close> is not called after every successful
  \<open>_executeValidated\<close>. Here the generator's \<open>execute\<close> saves
  \<open>example_block2\<close> and the only call on the network is the broadcast of the block.
\<close>

theorem execute_without_nodeInfo:
  "execute example_env example_block2 example_state
     = Some (Inr (),
        example_state\<lparr>lastBlock := example_block2,
          olderBlocks := [example_block1, example_genesis],
          finalizedHeight := 1,
          events := [CONSENSUS_EVENT_BLOCK_BROADCAST example_block2,
                     CONSENSUS_EVENT_BLOCK_NEW example_block2],
          network := [NETWORK_EVENT_POST_BLOCK example_block2]\<rparr>)"
  by (simp add: example_defs method_defs)

text \<open>No method but \<open>_execute\<close> on its valid-block branch calls \<open>applyNodeInfo\<close>.\<close>

lemma nodeInfoCalls_simps [simp]:
  "nodeInfoCalls (emit ev s) = nodeInfoCalls s"
  "nodeInfoCalls (log l m e s) = nodeInfoCalls s"
  "nodeInfoCalls (broadcast b opts s) = nodeInfoCalls s"
  "nodeInfoCalls (applyPenaltyOnPeer p n s) = nodeInfoCalls s"
  "nodeInfoCalls (applyNodeInfo b s)
     = nodeInfoCalls s @ [ApplyNodeInfo (height (header b)) (id_h (header b)) 0 (version (header b))]"
  by (simp_all add: nodeInfoCalls_def emit_def log_def broadcast_def applyPenaltyOnPeer_def
      applyNodeInfo_def)

lemma nodeInfoCalls_saveBlock:
  "nodeInfoCalls (snd (chain_saveBlock env block fh r s)) = nodeInfoCalls s"
  by (simp add: chain_saveBlock_def nodeInfoCalls_def split: option.split)

lemma nodeInfoCalls_removeBlock:
  "nodeInfoCalls (snd (chain_removeBlock env block r s)) = nodeInfoCalls s"
  by (simp add: chain_removeBlock_def nodeInfoCalls_def split: option.split list.split)

lemma nodeInfoCalls_executeValidated:
  "nodeInfoCalls (snd (p_executeValidated env block options s)) = nodeInfoCalls s"
  unfolding p_executeValidated_def Let_def
  by (simp add: case_prod_beta nodeInfoCalls_saveBlock split: option.split sum.split)

lemma nodeInfoCalls_deleteBlock:
  "nodeInfoCalls (snd (p_deleteBlock env block r s)) = nodeInfoCalls s"
  unfolding p_deleteBlock_def
  by (simp add: case_prod_beta nodeInfoCalls_removeBlock split: sum.split)

lemma nodeInfoCalls_deleteLastBlock:
  "nodeInfoCalls (snd (p_deleteLastBlock env opts s)) = nodeInfoCalls s"
  unfolding p_deleteLastBlock_def Let_def
  by (simp add: nodeInfoCalls_deleteBlock)

lemma nodeInfoCalls_tieBreak:
  "nodeInfoCalls (snd (tieBreak env block lastBlock0 s)) = nodeInfoCalls s"
  unfolding tieBreak_def Let_def
  by (simp add: case_prod_beta nodeInfoCalls_executeValidated nodeInfoCalls_deleteBlock
      split: sum.split)

lemma nodeInfoCalls_runSync:
  "nodeInfoCalls (snd (runSync env prog s)) = nodeInfoCalls s"
  by (induction prog arbitrary: s)
     (simp_all add: case_prod_beta nodeInfoCalls_executeValidated nodeInfoCalls_deleteLastBlock)

text \<open>
  C7, as the code has it. On the valid-block branch of \<open>_execute\<close>, after the block
  was verified and \<open>_executeValidated\<close> returned, \<open>applyNodeInfo\<close> is called with
  the height, the id and the version of the block and \<open>maxHeightPrevoted\<close> 0, as the
  last call on the network. \<open>_executeValidated\<close> itself, \<open>execute\<close>, the tie-break
  branch and the run of the synchronizer add no call of \<open>applyNodeInfo\<close>.
\<close>

theorem applyNodeInfo_only_after_valid_block:
  "(\<not> p_stop s \<and> forkChoice env (header block) (header (lastBlock s)) = VALID_BLOCK
      \<and> s1 = log Debug ''Processing valid block'' None
               (log Debug ''Starting to process block'' None s)
      \<and> p_verify env block s1 = Inr ()
      \<and> p_executeValidated env block defaultExecuteOptions s1 = (Inr b, s2)
    \<longrightarrow> p_execute env block peer s
          = Some (Inr (), s2\<lparr>network := network s2 @
                    [ApplyNodeInfo (height (header block)) (id_h (header block)) 0
                       (version (header block))]\<rparr>))
   \<and> nodeInfoCalls (snd (p_executeValidated env block options s)) = nodeInfoCalls s
   \<and> (mutexLocked s \<longrightarrow> execute env block s = None)
   \<and> (\<not> mutexLocked s \<longrightarrow>
        (\<exists>r s'. execute env block s = Some (r, s') \<and> nodeInfoCalls s' = nodeInfoCalls s))
   \<and> nodeInfoCalls (snd (tieBreak env block lastBlock0 s)) = nodeInfoCalls s
   \<and> nodeInfoCalls (snd (runSync env prog s)) = nodeInfoCalls s"
proof (intro conjI impI)
  assume "\<not> p_stop s \<and> forkChoice env (header block) (header (lastBlock s)) = VALID_BLOCK
      \<and> s1 = log Debug ''Processing valid block'' None
               (log Debug ''Starting to process block'' None s)
      \<and> p_verify env block s1 = Inr ()
      \<and> p_executeValidated env block defaultExecuteOptions s1 = (Inr b, s2)"
  then show "p_execute env block peer s
          = Some (Inr (), s2\<lparr>network := network s2 @
                    [ApplyNodeInfo (height (header block)) (id_h (header block)) 0
                       (version (header block))]\<rparr>)"
    by (clarsimp simp: p_execute_def Let_def forkStatusList_def applyNodeInfo_def)
next
  assume "mutexLocked s"
  then show "execute env block s = None"
    by (simp add: execute_def runExclusive_def)
next
  assume "\<not> mutexLocked s"
  then show "\<exists>r s'. execute env block s = Some (r, s') \<and> nodeInfoCalls s' = nodeInfoCalls s"
    using nodeInfoCalls_executeValidated [of env block defaultExecuteOptions s]
    by (simp add: execute_def runExclusive_def case_prod_beta split: sum.split)
qed (rule nodeInfoCalls_executeValidated nodeInfoCalls_tieBreak nodeInfoCalls_runSync)+


theorem applyNodeInfo_only_after_valid_block_witness:
  "\<not> p_stop example_state
   \<and> forkChoice example_env (header example_block2) (header (lastBlock example_state)) = VALID_BLOCK
   \<and> p_execute example_env example_block2 ''peer'' example_state
     = Some (Inr (),
         example_state\<lparr>lastBlock := example_block2,
           olderBlocks := [example_block1, example_genesis],
           finalizedHeight := 1,
           events := [CONSENSUS_EVENT_BLOCK_BROADCAST example_block2,
                      CONSENSUS_EVENT_BLOCK_NEW example_block2],
           network := [NETWORK_EVENT_POST_BLOCK example_block2, ApplyNodeInfo 2 [102] 0 2],
           logs := [(Debug, ''Starting to process block'', None),
                    (Debug, ''Processing valid block'', None)]\<rparr>)
   \<and> \<not> mutexLocked example_state
   \<and> (\<exists>r s'. execute example_env example_block2 example_state = Some (r, s')
         \<and> nodeInfoCalls s' = [])"
proof -
  let ?s1 = "log Debug ''Processing valid block'' None
               (log Debug ''Starting to process block'' None example_state)"
  let ?s2 = "snd (p_executeValidated example_env example_block2 defaultExecuteOptions ?s1)"
  have a: "\<not> p_stop example_state" by (simp add: example_defs)
  have b: "forkChoice example_env (header example_block2) (header (lastBlock example_state))
             = VALID_BLOCK"
    by (simp add: example_defs method_defs)
  have c: "p_verify example_env example_block2 ?s1 = Inr ()"
    by (simp add: example_defs method_defs)
  have d: "p_executeValidated example_env example_block2 defaultExecuteOptions ?s1
             = (Inr example_block2, ?s2)"
    by (simp add: example_defs method_defs)
  have e: "nodeInfoCalls example_state = []"
    by (simp add: nodeInfoCalls_def example_defs)
  from applyNodeInfo_only_after_valid_block [of example_state example_env example_block2 ?s1
      example_block2 ?s2 "''peer''" defaultExecuteOptions example_block1 SyncReturn] a b c d e
  show ?thesis
    by (simp add: example_defs method_defs)
qed

section \<open>The version of a received block\<close>

text \<open>
  C8 as stated does not hold: the version is tested in \<open>_verify\<close>, which runs after
  the fork choice and on two of its branches only. Here a block of version 1 is
  classified DISCARD: FORK_DETECTED is emitted, the processing returns, and the peer
  gets no penalty.
\<close>

theorem wrong_version_discarded_without_penalty:
  "version (header example_old) \<noteq> BLOCK_VERSION
   \<and> Block_fromBytes example_env [4] = Inr example_old
   \<and> forkChoice example_env (header example_old) (header (lastBlock example_state)) = DISCARD
   \<and> onBlockReceive example_env (BufferData [4]) ''peer'' example_state
     = Some (Inr (),
         example_state\<lparr>
           events := [CONSENSUS_EVENT_FORK_DETECTED example_old],
           logs := [(Debug, ''Starting to process block'', None),
                    (Debug, ''Discarding block'', None)]\<rparr>)"
  by (simp add: example_defs method_defs Let_def)

text \<open>
  C8, as the code has it. On a coordinator that is neither syncing nor stopped, a received
  block of another version that the fork choice classifies as VALID_BLOCK or TIE_BREAK
  is rejected by \<open>_verify\<close> with an \<open>ApplyPenaltyError\<close>, the peer gets a penalty
  of 100, and the chain is as before. A block that the fork choice classifies as DISCARD,
  IDENTICAL_BLOCK or DOUBLE_FORGING is not verified: whatever its version, the
  processing returns normally, the peer gets no penalty and the chain is as before.
\<close>

theorem version_tested_after_fork_choice:
  "(\<not> syncing s \<and> \<not> p_stop s
    \<and> codec_decode env bs = Inr blockBytes \<and> Block_fromBytes env blockBytes = Inr block
    \<and> version (header block) \<noteq> BLOCK_VERSION
    \<and> (forkChoice env (header block) (header (lastBlock s)) = VALID_BLOCK
         \<or> forkChoice env (header block) (header (lastBlock s)) = TIE_BREAK)
    \<longrightarrow> (\<exists>s'. onBlockReceive env (BufferData bs) peer s
                 = Some (Inl (ApplyPenaltyError ''Block version must be 2''), s')
             \<and> network s' = network s @ [ApplyPenaltyOnPeer peer 100]
             \<and> lastBlock s' = lastBlock s \<and> olderBlocks s' = olderBlocks s
             \<and> finalizedHeight s' = finalizedHeight s))
   \<and> (\<not> syncing s \<and> \<not> p_stop s
       \<and> codec_decode env bs = Inr blockBytes \<and> Block_fromBytes env blockBytes = Inr block
       \<and> (forkChoice env (header block) (header (lastBlock s)) = DISCARD
            \<or> forkChoice env (header block) (header (lastBlock s)) = IDENTICAL_BLOCK
            \<or> forkChoice env (header block) (header (lastBlock s)) = DOUBLE_FORGING)
       \<longrightarrow> (\<exists>s'. onBlockReceive env (BufferData bs) peer s = Some (Inr (), s')
                \<and> network s' = network s
                \<and> lastBlock s' = lastBlock s \<and> olderBlocks s' = olderBlocks s
                \<and> finalizedHeight s' = finalizedHeight s))"
proof (intro conjI impI)
  assume "\<not> syncing s \<and> \<not> p_stop s
    \<and> codec_decode env bs = Inr blockBytes \<and> Block_fromBytes env blockBytes = Inr block
    \<and> version (header block) \<noteq> BLOCK_VERSION
    \<and> (forkChoice env (header block) (header (lastBlock s)) = VALID_BLOCK
         \<or> forkChoice env (header block) (header (lastBlock s)) = TIE_BREAK)"
  then show "\<exists>s'. onBlockReceive env (BufferData bs) peer s
                 = Some (Inl (ApplyPenaltyError ''Block version must be 2''), s')
             \<and> network s' = network s @ [ApplyPenaltyOnPeer peer 100]
             \<and> lastBlock s' = lastBlock s \<and> olderBlocks s' = olderBlocks s
             \<and> finalizedHeight s' = finalizedHeight s"
    by (auto simp: onBlockReceive_def p_execute_def tieBreak_def p_verify_def Let_def
        forkStatusList_def)
next
  assume "\<not> syncing s \<and> \<not> p_stop s
       \<and> codec_decode env bs = Inr blockBytes \<and> Block_fromBytes env blockBytes = Inr block
       \<and> (forkChoice env (header block) (header (lastBlock s)) = DISCARD
            \<or> forkChoice env (header block) (header (lastBlock s)) = IDENTICAL_BLOCK
            \<or> forkChoice env (header block) (header (lastBlock s)) = DOUBLE_FORGING)"
  then show "\<exists>s'. onBlockReceive env (BufferData bs) peer s = Some (Inr (), s')
                \<and> network s' = network s
                \<and> lastBlock s' = lastBlock s \<and> olderBlocks s' = olderBlocks s
                \<and> finalizedHeight s' = finalizedHeight s"
    by (auto simp: onBlockReceive_def p_execute_def Let_def forkStatusList_def)
qed

theorem version_tested_after_fork_choice_witness:
  "\<not> syncing example_state \<and> \<not> p_stop example_state
   \<and> version (header example_block2_v1) \<noteq> BLOCK_VERSION
   \<and> forkChoice example_env (header example_block2_v1) (header (lastBlock example_state))
       = VALID_BLOCK
   \<and> (\<exists>s'. onBlockReceive (example_env\<lparr>Block_fromBytes := (\<lambda>bs. Inr example_block2_v1)\<rparr>)
              (BufferData [5]) ''peer'' example_state
            = Some (Inl (ApplyPenaltyError ''Block version must be 2''), s')
         \<and> network s' = [ApplyPenaltyOnPeer ''peer'' 100]
         \<and> lastBlock s' = example_block1)
   \<and> version (header example_block1_v1) \<noteq> BLOCK_VERSION
   \<and> forkChoice example_env (header example_block1_v1) (header (lastBlock example_state))
       = IDENTICAL_BLOCK
   \<and> (\<exists>s'. onBlockReceive (example_env\<lparr>Block_fromBytes := (\<lambda>bs. Inr example_block1_v1)\<rparr>)
              (BufferData [6]) ''peer'' example_state
            = Some (Inr (), s')
         \<and> network s' = [] \<and> lastBlock s' = example_block1)"
proof -
  let ?env2 = "example_env\<lparr>Block_fromBytes := (\<lambda>bs. Inr example_block2_v1)\<rparr>"
  let ?env1 = "example_env\<lparr>Block_fromBytes := (\<lambda>bs. Inr example_block1_v1)\<rparr>"
  have running: "\<not> syncing example_state \<and> \<not> p_stop example_state"
    by (simp add: example_defs syncing_def)
  have v2: "version (header example_block2_v1) \<noteq> BLOCK_VERSION"
    and v1: "version (header example_block1_v1) \<noteq> BLOCK_VERSION"
    by (simp_all add: example_block2_v1_def example_block1_v1_def BLOCK_VERSION_def)
  have f2: "forkChoice ?env2 (header example_block2_v1) (header (lastBlock example_state))
              = VALID_BLOCK"
    and f1: "forkChoice ?env1 (header example_block1_v1) (header (lastBlock example_state))
              = IDENTICAL_BLOCK"
    by (simp_all add: example_block2_v1_def example_block1_v1_def example_defs method_defs)
  have d2: "codec_decode ?env2 [5] = Inr [5] \<and> Block_fromBytes ?env2 [5] = Inr example_block2_v1"
    and d1: "codec_decode ?env1 [6] = Inr [6] \<and> Block_fromBytes ?env1 [6] = Inr example_block1_v1"
    by (simp_all add: example_defs)
  from version_tested_after_fork_choice
         [of example_state ?env2 "[5]" "[5]" example_block2_v1 "''peer''"] running v2 f2 d2
  have r2: "\<exists>s'. onBlockReceive ?env2 (BufferData [5]) ''peer'' example_state
                 = Some (Inl (ApplyPenaltyError ''Block version must be 2''), s')
             \<and> network s' = network example_state @ [ApplyPenaltyOnPeer ''peer'' 100]
             \<and> lastBlock s' = lastBlock example_state"
    by blast
  from version_tested_after_fork_choice
         [of example_state ?env1 "[6]" "[6]" example_block1_v1 "''peer''"] running f1 d1
  have r1: "\<exists>s'. onBlockReceive ?env1 (BufferData [6]) ''peer'' example_state = Some (Inr (), s')
                \<and> network s' = network example_state
                \<and> lastBlock s' = lastBlock example_state"
    by blast
  have f2': "forkChoice example_env (header example_block2_v1) (header (lastBlock example_state))
              = VALID_BLOCK"
    and f1': "forkChoice example_env (header example_block1_v1) (header (lastBlock example_state))
              = IDENTICAL_BLOCK"
    using f2 f1 by simp_all
  have st: "network example_state = []" "lastBlock example_state = example_block1"
    by (simp_all add: example_defs)
  from running v2 v1 f2' f1' r2 r1 st show ?thesis by simp
qed

section \<open>Receiving the tip again\<close>

text \<open>
  C9. When the received block has the id of the tip, \<open>onBlockReceive\<close> returns and
  changes nothing but the log: no block is saved or deleted, no event is emitted, no call
  on the network is made. On a coordinator that is neither syncing nor stopped the fork
  choice classifies the block IDENTICAL_BLOCK and the processing logs two lines; so
  receiving the block once more leaves the state, up to the log, as the first time did.
\<close>

theorem identical_block_is_noop:
  "forkChoice env = forkChoice_spec slots
   \<and> codec_decode env bs = Inr blockBytes \<and> Block_fromBytes env blockBytes = Inr block
   \<and> id_h (header block) = id_h (header (lastBlock s))
   \<longrightarrow> (\<exists>s'. onBlockReceive env (BufferData bs) peer s = Some (Inr (), s')
            \<and> s'\<lparr>logs := logs s\<rparr> = s)
       \<and> (\<not> syncing s \<and> \<not> p_stop s \<longrightarrow>
            forkChoice env (header block) (header (lastBlock s)) = IDENTICAL_BLOCK
            \<and> onBlockReceive env (BufferData bs) peer s
                = Some (Inr (), s\<lparr>logs := logs s @
                          [(Debug, ''Starting to process block'', None),
                           (Debug, ''Block already processed'', None)]\<rparr>))
       \<and> (\<forall>r1 s1. onBlockReceive env (BufferData bs) peer s = Some (r1, s1)
              \<longrightarrow> (\<exists>s2. onBlockReceive env (BufferData bs) peer s1 = Some (Inr (), s2)
                         \<and> s2\<lparr>logs := logs s1\<rparr> = s1))"
  by (auto simp: onBlockReceive_def p_execute_def Let_def forkStatusList_def forkChoice_spec_def
      log_def syncing_def)

theorem identical_block_is_noop_witness:
  "onBlockReceive example_env (BufferData [2]) ''peer'' example_state
     = Some (Inr (), example_state_after_block2)
   \<and> codec_decode example_env [2] = Inr [2] \<and> Block_fromBytes example_env [2] = Inr example_block2
   \<and> lastBlock example_state_after_block2 = example_block2
   \<and> forkChoice example_env (header example_block2) (header (lastBlock example_state_after_block2))
       = IDENTICAL_BLOCK
   \<and> onBlockReceive example_env (BufferData [2]) ''peer'' example_state_after_block2
       = Some (Inr (), example_state_after_block2\<lparr>logs := logs example_state_after_block2 @
                 [(Debug, ''Starting to process block'', None),
                  (Debug, ''Block already processed'', None)]\<rparr>)"
proof -
  have first: "onBlockReceive example_env (BufferData [2]) ''peer'' example_state
     = Some (Inr (), example_state_after_block2)"
    by (simp add: example_state_after_block2_def example_defs method_defs)
  have hyps: "forkChoice example_env = forkChoice_spec example_slots
     \<and> codec_decode example_env [2] = Inr [2] \<and> Block_fromBytes example_env [2] = Inr example_block2
     \<and> id_h (header example_block2) = id_h (header (lastBlock example_state_after_block2))"
    by (simp add: example_state_after_block2_def example_defs)
  have run: "\<not> syncing example_state_after_block2 \<and> \<not> p_stop example_state_after_block2"
    by (simp add: example_state_after_block2_def example_defs syncing_def)
  have tip: "lastBlock example_state_after_block2 = example_block2"
    by (simp add: example_state_after_block2_def example_defs)
  from identical_block_is_noop [of example_env example_slots "[2]" "[2]" example_block2
      example_state_after_block2 "''peer''"] hyps run
  have "forkChoice example_env (header example_block2) (header (lastBlock example_state_after_block2))
          = IDENTICAL_BLOCK
        \<and> onBlockReceive example_env (BufferData [2]) ''peer'' example_state_after_block2
          = Some (Inr (), example_state_after_block2\<lparr>logs := logs example_state_after_block2 @
                 [(Debug, ''Starting to process block'', None),
                  (Debug, ''Block already processed'', None)]\<rparr>)"
    by blast
  with first hyps tip show ?thesis by simp
qed

section \<open>The finalized height in the state diff\<close>

text \<open>
  C10. The finalized height must never enter the reverse diff of \<open>finalize\<close>, nor
  have its initial value cached by \<open>get\<close>, while its new value goes to the batch. The
  store tests \<open>key === CONSENSUS_STATE_FINALIZED_HEIGHT_KEY\<close>, which compares two
  buffers as objects. With a buffer that has the bytes of the constant but is another
  object, the value read from the database is cached as the initial value, and
  \<open>finalize\<close> puts the key into \<open>updated\<close> with the old height 5 (after a read) or
  into \<open>created\<close> (without one). With the constant itself the diff stays empty.
\<close>

theorem finalized_height_key_copy_in_diff:
  "content example_key_copy = content (CONSENSUS_STATE_FINALIZED_HEIGHT_KEY example_store_env)
   \<and> finalize example_store_env
        (store_run example_store_env [CallGet example_key_copy, CallSet example_key_copy [7]]) []
     = Inr (\<lparr>updated = [([99, 102, 72], [5])], created = [], deleted = []\<rparr>,
            [([99, 102, 72], Some [7])])
   \<and> finalize example_store_env
        (store_run example_store_env [CallSet example_key_copy [7]]) []
     = Inr (\<lparr>updated = [], created = [[99, 102, 72]], deleted = []\<rparr>,
            [([99, 102, 72], Some [7])])
   \<and> initialValue (store_run example_store_env [CallGet example_key_copy]) [102, 72] = Some [5]
   \<and> finalize example_store_env
        (store_run example_store_env
           [CallGet (CONSENSUS_STATE_FINALIZED_HEIGHT_KEY example_store_env),
            CallSet (CONSENSUS_STATE_FINALIZED_HEIGHT_KEY example_store_env) [7]]) []
     = Inr (\<lparr>updated = [], created = [], deleted = []\<rparr>, [([99, 102, 72], Some [7])])"
  by (simp add: example_store_env_def example_key_copy_def store_run_def finalize_def get_def
      set_value_def set_add_def constructor_def concatKeys_def Let_def)

text \<open>
  When every key with the bytes of the constant is the constant itself, the key of the
  finalized height is in neither list of the diff and has no cached initial value.
\<close>

lemma finalizeLoop_constant:
  assumes "only_constant env keys"
    and "finalizeLoop env st keys stateDiff batch = Inr (stateDiff', batch')"
    and "concatKeys (DB_KEY_CONSENSUS_STATE env) (content (CONSENSUS_STATE_FINALIZED_HEIGHT_KEY env))
           \<notin> set (created stateDiff) \<union> fst ` set (updated stateDiff)"
  shows "concatKeys (DB_KEY_CONSENSUS_STATE env) (content (CONSENSUS_STATE_FINALIZED_HEIGHT_KEY env))
           \<notin> set (created stateDiff') \<union> fst ` set (updated stateDiff')"
  using assms
proof (induction keys arbitrary: stateDiff batch)
  case Nil
  then show ?case by simp
next
  case (Cons key keys)
  have oc: "only_constant env keys"
    using Cons.prems(1) by (simp add: only_constant_def)
  have k: "ref key \<noteq> ref (CONSENSUS_STATE_FINALIZED_HEIGHT_KEY env) \<Longrightarrow>
           content key \<noteq> content (CONSENSUS_STATE_FINALIZED_HEIGHT_KEY env)"
    using Cons.prems(1) by (auto simp: only_constant_def)
  show ?case
  proof (cases "ref key = ref (CONSENSUS_STATE_FINALIZED_HEIGHT_KEY env)")
    case True
    with Cons.prems(2) Cons.IH [OF oc _ Cons.prems(3)] show ?thesis
      by (simp add: Let_def)
  next
    case False
    note neq = k [OF False]
    show ?thesis
    proof (cases "initialValue st (content key)")
      case None
      with False Cons.prems(2)
      have "finalizeLoop env st keys
              (stateDiff\<lparr>created := created stateDiff @
                 [concatKeys (DB_KEY_CONSENSUS_STATE env) (content key)]\<rparr>)
              (batch @ [(concatKeys (DB_KEY_CONSENSUS_STATE env) (content key),
                         data st (content key))])
            = Inr (stateDiff', batch')"
        by (simp add: Let_def)
      from Cons.IH [OF oc this] Cons.prems(3) neq show ?thesis
        by (simp add: concatKeys_def)
    next
      case (Some initial)
      show ?thesis
      proof (cases "data st (content key)")
        case None
        with Some False Cons.prems(2) show ?thesis by (simp add: Let_def)
      next
        case (Some v)
        show ?thesis
        proof (cases "initial = v")
          case True
          with Some \<open>initialValue st (content key) = Some initial\<close> False Cons.prems(2)
            Cons.IH [OF oc _ Cons.prems(3)] show ?thesis
            by (simp add: Let_def)
        next
          case ne: False
          with Some \<open>initialValue st (content key) = Some initial\<close> False Cons.prems(2)
          have "finalizeLoop env st keys
                  (stateDiff\<lparr>updated := updated stateDiff @
                     [(concatKeys (DB_KEY_CONSENSUS_STATE env) (content key), initial)]\<rparr>)
                  (batch @ [(concatKeys (DB_KEY_CONSENSUS_STATE env) (content key),
                             data st (content key))])
                = Inr (stateDiff', batch')"
            by (simp add: Let_def)
          from Cons.IH [OF oc this] Cons.prems(3) neq show ?thesis
            by (simp add: concatKeys_def)
        qed
      qed
    qed
  qed
qed

lemma store_inv_step:
  "store_inv env st \<Longrightarrow> only_constant env (call_keys c) \<Longrightarrow> store_inv env (store_step env c st)"
  by (cases c)
     (auto simp: store_inv_def only_constant_def get_def set_value_def set_add_def
        createSnapshot_def restoreSnapshot_def Let_def split: option.splits)

lemma store_inv_foldl:
  "store_inv env st \<Longrightarrow> only_constant env (concat (map call_keys calls)) \<Longrightarrow>
   store_inv env (foldl (\<lambda>st c. store_step env c st) st calls)"
proof (induction calls arbitrary: st)
  case Nil
  then show ?case by simp
next
  case (Cons c calls)
  have "store_inv env (store_step env c st)"
    using Cons.prems by (intro store_inv_step) (auto simp: only_constant_def)
  moreover have "only_constant env (concat (map call_keys calls))"
    using Cons.prems(2) by (auto simp: only_constant_def)
  ultimately show ?case using Cons.IH by simp
qed

lemma finalized_height_constant_not_in_diff:
  assumes "only_constant env (concat (map call_keys calls))"
    and "finalize env (store_run env calls) batch = Inr (stateDiff, batch')"
  shows "concatKeys (DB_KEY_CONSENSUS_STATE env) (content (CONSENSUS_STATE_FINALIZED_HEIGHT_KEY env))
           \<notin> set (created stateDiff) \<union> fst ` set (updated stateDiff)
         \<and> initialValue (store_run env calls) (content (CONSENSUS_STATE_FINALIZED_HEIGHT_KEY env)) = None"
proof -
  have inv: "store_inv env (store_run env calls)"
    unfolding store_run_def
    using assms(1) by (intro store_inv_foldl) (simp_all add: store_inv_def constructor_def only_constant_def)
  show ?thesis
  proof (cases "updatedKeys (store_run env calls) = []")
    case True
    with assms(2) inv show ?thesis by (auto simp: finalize_def store_inv_def)
  next
    case False
    with assms(2) have "finalizeLoop env (store_run env calls) (updatedKeys (store_run env calls))
        \<lparr>updated = [], created = [], deleted = []\<rparr> batch = Inr (stateDiff, batch')"
      by (simp add: finalize_def)
    from finalizeLoop_constant [OF _ this] inv show ?thesis
      by (simp add: store_inv_def)
  qed
qed

end
